theory Spec2Isabelle
  imports Main "HOL-Library.AList" "HOL-Library.Sublist"
begin

section \<open>The retry helper and the error logger of utils/error.js\<close>

text \<open>
  Times and durations are JavaScript numbers holding whole milliseconds; they are
  modelled as \<open>int\<close>.

  A value that an operation throws or rejects with. \<open>Falsy\<close> is a falsy value
  (\<open>undefined\<close>, \<open>null\<close>). \<open>Thrown name code status\<close> is any other value, with
  what the code reads from it: its \<open>name\<close> (the empty string when it has none), its
  \<open>code\<close> and its \<open>status\<close>. A \<open>code\<close> is absent, a string (the custom error
  classes of this file) or a number (a \<open>DOMException\<close>, a geolocation error).
\<close>

datatype code = NoCode | StrCode string | NumCode int

datatype thrown = Falsy | Thrown string code "int option"

text \<open>
  Two of the custom error classes: \<open>new APIError(message, status)\<close> has the name
  \<open>APIError\<close> and the code \<open>API_ERROR\<close>; \<open>new NetworkError(message, offline)\<close> has
  the name \<open>NetworkError\<close> and the code \<open>NETWORK_OFFLINE\<close> or \<open>NETWORK_ERROR\<close>.
  \<open>TypeError\<close> is the error of calling something that is not a function.
\<close>

definition APIError :: "int \<Rightarrow> thrown" where
  "APIError status = Thrown ''APIError'' (StrCode ''API_ERROR'') (Some status)"

definition NetworkError :: "bool \<Rightarrow> thrown" where
  "NetworkError offline =
     Thrown ''NetworkError'' (StrCode (if offline then ''NETWORK_OFFLINE'' else ''NETWORK_ERROR''))
       None"

definition TypeError :: thrown where
  "TypeError = Thrown ''TypeError'' NoCode None"

text \<open>
  \<open>error.code?.includes(s)\<close>: the optional chain stops at an absent code and gives
  \<open>undefined\<close>, which is falsy; a string has the method; a number has no \<open>includes\<close>,
  and calling it throws a \<open>TypeError\<close>.
\<close>

fun code_includes :: "code \<Rightarrow> string \<Rightarrow> thrown + bool" where
  "code_includes NoCode s = Inr False"
| "code_includes (StrCode c) s = Inr (sublist s c)"
| "code_includes (NumCode n) s = Inl TypeError"

text \<open>
  \<^verbatim>\<open>
  export function getErrorSeverity(error) {
      if (!error) return ERROR_SEVERITY.MEDIUM;
      if (error.name === 'SecurityError' || error.code === 'API_UNAUTHORIZED') return CRITICAL;
      if (error.name === 'NetworkError' || error.code?.includes('NETWORK')) return HIGH;
      if (error.name === 'APIError' || error.code?.includes('API')) return MEDIUM;
      if (error.code?.includes('CACHE') || error.code?.includes('LOCATION')) return LOW;
      return ERROR_SEVERITY.MEDIUM;
  }
  \<close>
\<close>

datatype severity = LOW | MEDIUM | HIGH | CRITICAL

definition getErrorSeverity :: "thrown \<Rightarrow> thrown + severity" where
  "getErrorSeverity error =
     (case error of
        Falsy \<Rightarrow> Inr MEDIUM
      | Thrown name code status \<Rightarrow>
          if name = ''SecurityError'' \<or> code = StrCode ''API_UNAUTHORIZED'' then Inr CRITICAL
          else if name = ''NetworkError'' then Inr HIGH
          else (case code_includes code ''NETWORK'' of
                  Inl e \<Rightarrow> Inl e
                | Inr True \<Rightarrow> Inr HIGH
                | Inr False \<Rightarrow>
                    if name = ''APIError'' then Inr MEDIUM
                    else (case code_includes code ''API'' of
                            Inl e \<Rightarrow> Inl e
                          | Inr True \<Rightarrow> Inr MEDIUM
                          | Inr False \<Rightarrow>
                              (case code_includes code ''CACHE'' of
                                 Inl e \<Rightarrow> Inl e
                               | Inr True \<Rightarrow> Inr LOW
                               | Inr False \<Rightarrow>
                                   (case code_includes code ''LOCATION'' of
                                      Inl e \<Rightarrow> Inl e
                                    | Inr True \<Rightarrow> Inr LOW
                                    | Inr False \<Rightarrow> Inr MEDIUM)))))"

text \<open>
  \<open>errorLogger.warn(error, context)\<close> is \<open>log(error, context, 'warn')\<close>. \<open>log\<close> builds
  the log entry, one field of which is \<open>severity: getErrorSeverity(error)\<close>, appends it to
  \<open>this.logs\<close>, prints it and saves the last entries (inside a \<open>try\<close>/\<open>catch\<close>). The
  other fields read \<open>navigator\<close> and \<open>window\<close>, which a browser has. So \<open>warn\<close>
  throws exactly when \<open>getErrorSeverity\<close> does; the list of entries is not part of the
  model.
\<close>

definition errorLogger_warn :: "thrown \<Rightarrow> thrown + unit" where
  "errorLogger_warn error =
     (case getErrorSeverity error of Inl e \<Rightarrow> Inl e | Inr severity \<Rightarrow> Inr ())"

text \<open>
  The options object of \<open>retry(fn, options = {})\<close>. A field that is \<open>None\<close> is a
  property the caller left out, for which the destructuring pattern supplies the default:
  \<^verbatim>\<open>{ retries = 3, delay = 1000, backoff = 2, condition = () => true } = options\<close>.
\<close>

record retry_options =
  retries :: "int option"
  delay :: "int option"
  backoff :: "int option"
  condition :: "(thrown \<Rightarrow> bool) option"

definition no_options :: retry_options where
  "no_options = \<lparr>retries = None, delay = None, backoff = None, condition = None\<rparr>"

text \<open>
  What a call of \<open>retry\<close> did: \<open>outcome\<close> is \<open>Inr v\<close> when the promise resolves with
  \<open>v\<close> and \<open>Inl e\<close> when it rejects; the rejection value is \<open>Some error\<close>, or \<open>None\<close>
  for the \<open>undefined\<close> that \<open>throw lastError\<close> throws when no attempt was made.
  \<open>invocations\<close> counts the calls of \<open>fn\<close>, \<open>waits\<close> lists the arguments of the
  \<open>setTimeout\<close> calls in order.
\<close>

record 'a retry_result =
  outcome :: "thrown option + 'a"
  invocations :: nat
  waits :: "int list"

text \<open>
  \<open>fn\<close> is an effectful thunk: \<open>fn i\<close> is what its invocation number \<open>i\<close> (from 0)
  does, \<open>Inl error\<close> for a throw or rejection. The loop calls \<open>fn\<close> once per round, so the
  loop counter \<open>attempt\<close> is also the number of invocations made so far. The call of
  \<open>errorLogger.warn\<close> stands in the \<open>catch\<close> block: what it throws leaves \<open>retry\<close>.
  \<^verbatim>\<open>
  for (let attempt = 0; attempt <= retries; attempt++) {
      try { return await fn(); }
      catch (error) {
          lastError = error;
          if (attempt === retries || !condition(error)) throw error;
          const waitTime = delay * Math.pow(backoff, attempt);
          errorLogger.warn(error, { type: 'retry-attempt', attempt: attempt + 1, ... });
          await new Promise(resolve => setTimeout(resolve, waitTime));
      }
  }
  throw lastError;
  \<close>
\<close>

function retry_loop ::
  "(nat \<Rightarrow> thrown + 'a) \<Rightarrow> int \<Rightarrow> int \<Rightarrow> int \<Rightarrow> (thrown \<Rightarrow> bool) \<Rightarrow>
   nat \<Rightarrow> thrown option \<Rightarrow> int list \<Rightarrow> 'a retry_result" where
  "retry_loop fn r d b c attempt lastError ws =
     (if int attempt \<le> r then
        (case fn attempt of
           Inr v \<Rightarrow> \<lparr>outcome = Inr v, invocations = attempt + 1, waits = ws\<rparr>
         | Inl error \<Rightarrow>
             if int attempt = r \<or> \<not> c error
             then \<lparr>outcome = Inl (Some error), invocations = attempt + 1, waits = ws\<rparr>
             else (case errorLogger_warn error of
                     Inl e \<Rightarrow> \<lparr>outcome = Inl (Some e), invocations = attempt + 1, waits = ws\<rparr>
                   | Inr u \<Rightarrow>
                       retry_loop fn r d b c (attempt + 1) (Some error)
                         (ws @ [d * b ^ attempt])))
      else \<lparr>outcome = Inl lastError, invocations = attempt, waits = ws\<rparr>)"
  by pat_completeness auto
termination
  by (relation "measure (\<lambda>(fn, r, d, b, c, attempt, lastError, ws). nat (r + 1 - int attempt))")
     auto

declare retry_loop.simps [simp del]

definition retry :: "(nat \<Rightarrow> thrown + 'a) \<Rightarrow> retry_options \<Rightarrow> 'a retry_result" where
  "retry fn options =
     retry_loop fn
       (case retries options of None \<Rightarrow> 3 | Some r \<Rightarrow> r)
       (case delay options of None \<Rightarrow> 1000 | Some d \<Rightarrow> d)
       (case backoff options of None \<Rightarrow> 2 | Some b \<Rightarrow> b)
       (case condition options of None \<Rightarrow> (\<lambda>_. True) | Some c \<Rightarrow> c)
       0 None []"

section \<open>The cache service of services/cache.js\<close>

subsection \<open>Numbers, entries and their JSON form\<close>

text \<open>
  The values that reach \<open>customTTL\<close> and \<open>ttl\<close>: a whole number of milliseconds
  (\<open>Num n\<close> is the number \<open>n\<close>), \<open>Infinity\<close>, \<open>null\<close>, or a member of
  \<open>Object.prototype\<close>. \<open>JNull\<close> is the default of the parameter
  \<open>customTTL = null\<close>. \<open>Inherited\<close> is what a property access on an object literal
  gives for a name that the object does not have itself but \<open>Object.prototype\<close>
  has: a function, or for \<open>__proto__\<close> the prototype object. Numbers with a fraction,
  \<open>NaN\<close> and \<open>-Infinity\<close> are not values of this type.
\<close>

datatype jsnum = Num int | Infinity | JNull | Inherited

fun truthy :: "jsnum \<Rightarrow> bool" where
  "truthy (Num n) = (n \<noteq> 0)"
| "truthy Infinity = True"
| "truthy JNull = False"
| "truthy Inherited = True"

text \<open>
  The values of the field \<open>expires\<close>. \<open>At t\<close> is the whole number \<open>t\<close>, of magnitude
  at most \<open>2 ^ 53\<close>, the range in which a JavaScript number holds every whole number
  and adds exactly. \<open>Beyond\<close> is a finite number of at least \<open>2 ^ 53\<close> and
  \<open>Before\<close> one of at most \<open>- (2 ^ 53)\<close>: a sum that leaves the exact range is
  rounded, and the model keeps only on which side it lies. \<open>Never\<close> is \<open>Infinity\<close>.
  \<open>NullExpiry\<close> is \<open>null\<close>, which is what \<open>JSON.parse\<close> gives back for
  \<open>Infinity\<close>: JSON has no literal for it and \<open>JSON.stringify\<close> writes \<open>null\<close>.
  \<open>NaNText\<close> is the string that \<open>now + ttl\<close> is when \<open>ttl\<close> is a function or
  an object; compared with a number it converts to \<open>NaN\<close>.
\<close>

datatype expiry = At int | Never | NullExpiry | Beyond | Before | NaNText

text \<open>
  \<open>now + ttl\<close> for a time \<open>now\<close>, a value of \<open>Date.now()\<close>: a whole number of
  magnitude at most 8640000000000000, which is less than \<open>2 ^ 53\<close>. \<open>null\<close>
  converts to 0.
\<close>

fun js_add :: "int \<Rightarrow> jsnum \<Rightarrow> expiry" where
  "js_add now (Num n) =
     (if \<bar>now + n\<bar> \<le> 2 ^ 53 then At (now + n) else if 0 < now + n then Beyond else Before)"
| "js_add now Infinity = Never"
| "js_add now JNull = At now"
| "js_add now Inherited = NaNText"

text \<open>
  The test \<^verbatim>\<open>expires !== Infinity && Date.now() > expires\<close> that \<open>get\<close>,
  \<open>getLocalStorage\<close>, \<open>getStoreStats\<close>, \<open>cleanupStore\<close>, \<open>cleanupLocalStorage\<close> and
  \<open>getLocalStorageStats\<close> all make, for a time \<open>now\<close> as above. \<open>null !== Infinity\<close>
  holds and \<open>now > null\<close> compares with 0; a comparison with \<open>NaN\<close> is false.
\<close>

fun isExpired :: "expiry \<Rightarrow> int \<Rightarrow> bool" where
  "isExpired Never now = False"
| "isExpired (At t) now = (now > t)"
| "isExpired NullExpiry now = (now > 0)"
| "isExpired Beyond now = False"
| "isExpired Before now = (- (2 ^ 53) < now)"
| "isExpired NaNText now = False"

text \<open>
  The object \<open>cacheEntry\<close> built by \<open>set\<close>. Its \<open>size\<close> field (an estimate from
  \<open>calculateSize\<close>) only feeds the byte totals of the statistics and is left out, as
  are those totals. The payload type \<open>'a\<close> stands for values that survive
  \<open>JSON.parse(JSON.stringify(data))\<close> and structured cloning unchanged.
\<close>

record 'a cacheEntry =
  entry_id :: string
  data :: 'a
  entry_type :: string
  timestamp :: int
  expires :: expiry

text \<open>
  A string held by localStorage under a \<open>cache_\<close> key: the serialisation of an entry,
  or text that \<open>JSON.parse\<close> rejects.
\<close>

datatype 'a json_text = JsonText "'a cacheEntry" | Garbage

datatype js_error = DOMException | StorageException | SyntaxError

definition JSON_stringify :: "'a cacheEntry \<Rightarrow> 'a json_text" where
  "JSON_stringify e =
     JsonText (e\<lparr>expires := (case expires e of Never \<Rightarrow> NullExpiry | x \<Rightarrow> x)\<rparr>)"

fun JSON_parse :: "'a json_text \<Rightarrow> js_error + 'a cacheEntry" where
  "JSON_parse (JsonText e) = Inr e"
| "JSON_parse Garbage = Inl SyntaxError"

subsection \<open>The constructor's tables\<close>

definition stores :: "(string \<times> string) list" where
  "stores =
     [(''weather'', ''weather-data''),
      (''locations'', ''location-data''),
      (''images'', ''image-cache''),
      (''settings'', ''app-settings'')]"

definition expirationTimes :: "(string \<times> jsnum) list" where
  "expirationTimes =
     [(''weather'', Num (10 * 60 * 1000)),
      (''forecast'', Num (30 * 60 * 1000)),
      (''location'', Num (60 * 60 * 1000)),
      (''search'', Num (60 * 60 * 1000)),
      (''image'', Num (24 * 60 * 60 * 1000)),
      (''setting'', Infinity)]"

text \<open>
  \<open>this.stores\<close> and \<open>this.expirationTimes\<close> are object literals, so \<open>obj[name]\<close>
  finds the properties of the table and, for any other name, those that every object
  inherits from \<open>Object.prototype\<close>; it is \<open>undefined\<close> for the rest.
\<close>

definition Object_prototype :: "string list" where
  "Object_prototype =
     [''constructor'', ''__defineGetter__'', ''__defineSetter__'', ''hasOwnProperty'',
      ''__lookupGetter__'', ''__lookupSetter__'', ''isPrototypeOf'', ''propertyIsEnumerable'',
      ''toString'', ''valueOf'', ''__proto__'', ''toLocaleString'']"

datatype 'v property = Own 'v | FromPrototype | Undefined

definition get_property :: "(string \<times> 'v) list \<Rightarrow> string \<Rightarrow> 'v property" where
  "get_property obj name =
     (case map_of obj name of
        Some v \<Rightarrow> Own v
      | None \<Rightarrow> if name \<in> set Object_prototype then FromPrototype else Undefined)"

text \<open>
  \<^verbatim>\<open>return this.stores[type] || this.stores.weather;\<close>
  The result is the name of an object store, or for an inherited name a function or
  object: \<open>NotAStore\<close>, which names no object store, so that \<open>this.db.transaction\<close>
  throws.
\<close>

datatype store_ref = Store string | NotAStore

definition getStore :: "string \<Rightarrow> store_ref" where
  "getStore type =
     (case get_property stores type of
        Own storeName \<Rightarrow> Store storeName
      | FromPrototype \<Rightarrow> NotAStore
      | Undefined \<Rightarrow> Store (the (map_of stores ''weather'')))"

text \<open>
  \<^verbatim>\<open>const ttl = customTTL || this.expirationTimes[type] || this.expirationTimes.weather;\<close>
\<close>

definition ttl_of :: "jsnum \<Rightarrow> string \<Rightarrow> jsnum" where
  "ttl_of customTTL type =
     (if truthy customTTL then customTTL
      else (case get_property expirationTimes type of
              Own t \<Rightarrow> if truthy t then t else the (map_of expirationTimes ''weather'')
            | FromPrototype \<Rightarrow> Inherited
            | Undefined \<Rightarrow> the (map_of expirationTimes ''weather'')))"

subsection \<open>The two backends\<close>

text \<open>
  An IndexedDB object store with \<open>keyPath: 'id'\<close> and localStorage are both collections
  of records with unique keys that can be enumerated (by a cursor, by \<open>Object.keys\<close>):
  association lists. \<open>db\<close> maps the name of an object store to its contents.

  Every call of a backend can fail. \<open>env\<close> says, for one call of a public method, which
  of its backend requests succeed: the read-only and the read-write IndexedDB
  transactions, and the localStorage calls (\<open>setItem\<close> throws when the quota is
  exceeded, any access throws when storage is denied).
\<close>

type_synonym 'a object_store = "(string \<times> 'a cacheEntry) list"

record env =
  idb_read_ok :: bool
  idb_write_ok :: bool
  ls_ok :: bool

record 'a cache_service =
  useLocalStorage :: bool
  db :: "string \<Rightarrow> 'a object_store"
  localStorage :: "(string \<times> 'a json_text) list"

definition idb_put ::
  "env \<Rightarrow> store_ref \<Rightarrow> 'a cacheEntry \<Rightarrow> (string \<Rightarrow> 'a object_store) \<Rightarrow>
   js_error + (string \<Rightarrow> 'a object_store)" where
  "idb_put env store e d =
     (case store of
        NotAStore \<Rightarrow> Inl DOMException
      | Store s \<Rightarrow>
          if idb_write_ok env then Inr (d(s := AList.update (entry_id e) e (d s)))
          else Inl DOMException)"

definition idb_get ::
  "env \<Rightarrow> store_ref \<Rightarrow> string \<Rightarrow> (string \<Rightarrow> 'a object_store) \<Rightarrow>
   js_error + 'a cacheEntry option" where
  "idb_get env store key d =
     (case store of
        NotAStore \<Rightarrow> Inl DOMException
      | Store s \<Rightarrow> if idb_read_ok env then Inr (map_of (d s) key) else Inl DOMException)"

definition idb_delete ::
  "env \<Rightarrow> store_ref \<Rightarrow> string \<Rightarrow> (string \<Rightarrow> 'a object_store) \<Rightarrow>
   js_error + (string \<Rightarrow> 'a object_store)" where
  "idb_delete env store key d =
     (case store of
        NotAStore \<Rightarrow> Inl DOMException
      | Store s \<Rightarrow>
          if idb_write_ok env then Inr (d(s := AList.delete key (d s))) else Inl DOMException)"

definition idb_clear ::
  "env \<Rightarrow> store_ref \<Rightarrow> (string \<Rightarrow> 'a object_store) \<Rightarrow>
   js_error + (string \<Rightarrow> 'a object_store)" where
  "idb_clear env store d =
     (case store of
        NotAStore \<Rightarrow> Inl DOMException
      | Store s \<Rightarrow> if idb_write_ok env then Inr (d(s := [])) else Inl DOMException)"

definition ls_setItem ::
  "env \<Rightarrow> string \<Rightarrow> 'v \<Rightarrow> (string \<times> 'v) list \<Rightarrow> js_error + (string \<times> 'v) list" where
  "ls_setItem env k v ls =
     (if ls_ok env then Inr (AList.update k v ls) else Inl StorageException)"

definition ls_getItem ::
  "env \<Rightarrow> string \<Rightarrow> (string \<times> 'v) list \<Rightarrow> js_error + 'v option" where
  "ls_getItem env k ls = (if ls_ok env then Inr (map_of ls k) else Inl StorageException)"

definition ls_removeItem ::
  "env \<Rightarrow> string \<Rightarrow> (string \<times> 'v) list \<Rightarrow> js_error + (string \<times> 'v) list" where
  "ls_removeItem env k ls =
     (if ls_ok env then Inr (AList.delete k ls) else Inl StorageException)"

subsection \<open>The localStorage fallback methods\<close>

text \<open>
  Each of them wraps its whole body in \<open>try { ... } catch (error) { console.error(...) }\<close>,
  so none of them throws: they return the new state (and their result) directly.
\<close>

definition setLocalStorage ::
  "env \<Rightarrow> string \<Rightarrow> 'a cacheEntry \<Rightarrow> 'a cache_service \<Rightarrow> 'a cache_service" where
  "setLocalStorage env key cacheEntry st =
     (case ls_setItem env (''cache_'' @ key) (JSON_stringify cacheEntry) (localStorage st) of
        Inr ls \<Rightarrow> st\<lparr>localStorage := ls\<rparr>
      | Inl error \<Rightarrow> st)"

definition getLocalStorage ::
  "int \<Rightarrow> env \<Rightarrow> string \<Rightarrow> 'a cache_service \<Rightarrow> 'a option \<times> 'a cache_service" where
  "getLocalStorage now env key st =
     (case ls_getItem env (''cache_'' @ key) (localStorage st) of
        Inl error \<Rightarrow> (None, st)
      | Inr None \<Rightarrow> (None, st)
      | Inr (Some item) \<Rightarrow>
          (case JSON_parse item of
             Inl error \<Rightarrow> (None, st)
           | Inr cacheEntry \<Rightarrow>
               if isExpired (expires cacheEntry) now
               then (case ls_removeItem env (''cache_'' @ key) (localStorage st) of
                       Inr ls \<Rightarrow> (None, st\<lparr>localStorage := ls\<rparr>)
                     | Inl error \<Rightarrow> (None, st))
               else (Some (data cacheEntry), st)))"

definition deleteLocalStorage :: "env \<Rightarrow> string \<Rightarrow> 'a cache_service \<Rightarrow> 'a cache_service" where
  "deleteLocalStorage env key st =
     (case ls_removeItem env (''cache_'' @ key) (localStorage st) of
        Inr ls \<Rightarrow> st\<lparr>localStorage := ls\<rparr>
      | Inl error \<Rightarrow> st)"

text \<open>
  \<^verbatim>\<open>if (key.startsWith(`cache_`) && key.includes(type)) localStorage.removeItem(key);\<close>
\<close>

definition clearLocalStorageType :: "string \<Rightarrow> env \<Rightarrow> 'a cache_service \<Rightarrow> 'a cache_service" where
  "clearLocalStorageType type env st =
     (if ls_ok env
      then st\<lparr>localStorage :=
             filter (\<lambda>(k, item). \<not> (prefix ''cache_'' k \<and> sublist type k)) (localStorage st)\<rparr>
      else st)"

definition clearAllLocalStorage :: "env \<Rightarrow> 'a cache_service \<Rightarrow> 'a cache_service" where
  "clearAllLocalStorage env st =
     (if ls_ok env
      then st\<lparr>localStorage := filter (\<lambda>(k, item). \<not> prefix ''cache_'' k) (localStorage st)\<rparr>
      else st)"

text \<open>
  What the sweep of \<open>cleanupLocalStorage\<close> removes and counts: a \<open>cache_\<close> record that
  is expired, or that does not parse (the inner \<open>catch\<close>: "Remove corrupted entries").
\<close>

definition ls_swept :: "int \<Rightarrow> string \<times> 'a json_text \<Rightarrow> bool" where
  "ls_swept now p =
     (prefix ''cache_'' (fst p) \<and>
      (case JSON_parse (snd p) of
         Inr cacheEntry \<Rightarrow> isExpired (expires cacheEntry) now
       | Inl error \<Rightarrow> True))"

definition cleanupLocalStorage :: "int \<Rightarrow> env \<Rightarrow> 'a cache_service \<Rightarrow> nat \<times> 'a cache_service" where
  "cleanupLocalStorage now env st =
     (if ls_ok env
      then (length (filter (ls_swept now) (localStorage st)),
            st\<lparr>localStorage := filter (\<lambda>p. \<not> ls_swept now p) (localStorage st)\<rparr>)
      else (0, st))"


text \<open>
  \<open>getLocalStorageStats\<close>: a \<open>cache_\<close> record that parses is counted as an entry, and
  as expired when it is; one that does not parse is counted as expired only.
\<close>

record store_stats =
  entries :: nat
  expired :: nat

record cache_stats =
  stores_stats :: "(string \<times> store_stats) list"
  totalEntries :: nat
  expiredEntries :: nat

definition ls_counted :: "string \<times> 'a json_text \<Rightarrow> bool" where
  "ls_counted p =
     (prefix ''cache_'' (fst p) \<and>
      (case JSON_parse (snd p) of Inr cacheEntry \<Rightarrow> True | Inl error \<Rightarrow> False))"

definition getLocalStorageStats :: "int \<Rightarrow> env \<Rightarrow> 'a cache_service \<Rightarrow> cache_stats" where
  "getLocalStorageStats now env st =
     (if ls_ok env
      then (let n = length (filter ls_counted (localStorage st));
                x = length (filter (ls_swept now) (localStorage st))
            in \<lparr>stores_stats = [(''localStorage'', \<lparr>entries = n, expired = x\<rparr>)],
                totalEntries = n, expiredEntries = x\<rparr>)
      else \<lparr>stores_stats = [], totalEntries = 0, expiredEntries = 0\<rparr>)"

subsection \<open>The public methods\<close>

text \<open>
  The methods \<open>set\<close>, \<open>get\<close> and \<open>delete\<close> are \<open>cache_set\<close>, \<open>cache_get\<close> and
  \<open>cache_delete\<close> here. Each public method is \<open>async\<close> and begins with \<open>await this.waitForReady()\<close>; the
  states below are those of a service whose \<open>init\<close> has finished (\<open>isReady\<close> is true in
  both of its branches), so the wait ends at once. A method returns what its promise
  settles with, \<open>Inl error\<close> for a rejection and \<open>Inr result\<close> for a resolution,
  together with the state it leaves; \<open>now\<close> is what \<open>Date.now()\<close> returns during the
  call.

  \<^verbatim>\<open>
  async set(key, data, type = 'weather', customTTL = null) {
      const now = Date.now();
      const ttl = customTTL || this.expirationTimes[type] || this.expirationTimes.weather;
      const expires = ttl === Infinity ? Infinity : now + ttl;
      const cacheEntry = { id: key, data: data, type: type, timestamp: now, expires: expires, ... };
      try {
          if (this.useLocalStorage) return this.setLocalStorage(key, cacheEntry);
          ... objectStore.put(cacheEntry) ...
      } catch (error) {
          this.setLocalStorage(key, cacheEntry);
      }
  }
  \<close>
\<close>

definition new_entry :: "int \<Rightarrow> string \<Rightarrow> 'a \<Rightarrow> string \<Rightarrow> jsnum \<Rightarrow> 'a cacheEntry" where
  "new_entry now key dat type customTTL =
     (let ttl = ttl_of customTTL type;
          expires = (if ttl = Infinity then Never else js_add now ttl)
      in \<lparr>entry_id = key, data = dat, entry_type = type, timestamp = now, expires = expires\<rparr>)"

definition cache_set ::
  "int \<Rightarrow> string \<Rightarrow> 'a \<Rightarrow> string \<Rightarrow> jsnum \<Rightarrow> env \<Rightarrow> 'a cache_service \<Rightarrow>
   (js_error + unit) \<times> 'a cache_service" where
  "cache_set now key dat type customTTL env st =
     (let cacheEntry = new_entry now key dat type customTTL
      in if useLocalStorage st then (Inr (), setLocalStorage env key cacheEntry st)
         else (case idb_put env (getStore type) cacheEntry (db st) of
                 Inr d \<Rightarrow> (Inr (), st\<lparr>db := d\<rparr>)
               | Inl error \<Rightarrow> (Inr (), setLocalStorage env key cacheEntry st)))"

text \<open>
  \<^verbatim>\<open>
  async delete(key, type = 'weather') {
      try {
          if (this.useLocalStorage) return this.deleteLocalStorage(key);
          ... objectStore.delete(key) ...
      } catch (error) { console.error(...); }
  }
  \<close>
\<close>

definition cache_delete ::
  "string \<Rightarrow> string \<Rightarrow> env \<Rightarrow> 'a cache_service \<Rightarrow> (js_error + unit) \<times> 'a cache_service" where
  "cache_delete key type env st =
     (if useLocalStorage st then (Inr (), deleteLocalStorage env key st)
      else (case idb_delete env (getStore type) key (db st) of
              Inr d \<Rightarrow> (Inr (), st\<lparr>db := d\<rparr>)
            | Inl error \<Rightarrow> (Inr (), st)))"

text \<open>
  \<open>get(key, type = 'weather')\<close> has these two parameters only; a third argument of a
  call is dropped. The result \<open>None\<close> is \<open>null\<close>. On an expired entry it calls
  \<open>this.delete(key, type)\<close> without awaiting it; the deletion is the next thing the
  service does, and the model runs it within the call; the promise of \<open>delete\<close> is
  dropped, so only the state it leaves matters.
  \<^verbatim>\<open>
      try {
          if (this.useLocalStorage) return this.getLocalStorage(key);
          ... cacheEntry = objectStore.get(key) ...
          if (!cacheEntry) return null;
          if (cacheEntry.expires !== Infinity && Date.now() > cacheEntry.expires) {
              this.delete(key, type);
              return null;
          }
          return cacheEntry.data;
      } catch (error) {
          return this.getLocalStorage(key);
      }
  \<close>
\<close>

definition cache_get ::
  "int \<Rightarrow> string \<Rightarrow> string \<Rightarrow> env \<Rightarrow> 'a cache_service \<Rightarrow>
   (js_error + 'a option) \<times> 'a cache_service" where
  "cache_get now key type env st =
     (if useLocalStorage st
      then (let (r, st') = getLocalStorage now env key st in (Inr r, st'))
      else (case idb_get env (getStore type) key (db st) of
              Inl error \<Rightarrow> (let (r, st') = getLocalStorage now env key st in (Inr r, st'))
            | Inr None \<Rightarrow> (Inr None, st)
            | Inr (Some cacheEntry) \<Rightarrow>
                if isExpired (expires cacheEntry) now
                then (Inr None, snd (cache_delete key type env st))
                else (Inr (Some (data cacheEntry)), st)))"

definition clearType ::
  "string \<Rightarrow> env \<Rightarrow> 'a cache_service \<Rightarrow> (js_error + unit) \<times> 'a cache_service" where
  "clearType type env st =
     (if useLocalStorage st then (Inr (), clearLocalStorageType type env st)
      else (case idb_clear env (getStore type) (db st) of
              Inr d \<Rightarrow> (Inr (), st\<lparr>db := d\<rparr>)
            | Inl error \<Rightarrow> (Inr (), st)))"

text \<open>
  \<open>clearAll\<close> clears every object store of \<open>Object.values(this.stores)\<close>, each in a
  transaction of its own, and awaits them together.
\<close>

fun idb_clear_each ::
  "env \<Rightarrow> string list \<Rightarrow> (string \<Rightarrow> 'a object_store) \<Rightarrow>
   js_error + (string \<Rightarrow> 'a object_store)" where
  "idb_clear_each env [] d = Inr d"
| "idb_clear_each env (store # rest) d =
     (case idb_clear env (Store store) d of
        Inr d' \<Rightarrow> idb_clear_each env rest d'
      | Inl error \<Rightarrow> Inl error)"

definition clearAll :: "env \<Rightarrow> 'a cache_service \<Rightarrow> (js_error + unit) \<times> 'a cache_service" where
  "clearAll env st =
     (if useLocalStorage st then (Inr (), clearAllLocalStorage env st)
      else (case idb_clear_each env (map snd stores) (db st) of
              Inr d \<Rightarrow> (Inr (), st\<lparr>db := d\<rparr>)
            | Inl error \<Rightarrow> (Inr (), st)))"

text \<open>
  \<open>getStoreStats\<close> walks a cursor over one object store; \<open>getStats\<close> adds the stores
  up in the order of \<open>Object.entries(this.stores)\<close> and returns the totals gathered so
  far when a store cannot be read.
\<close>

definition getStoreStats :: "int \<Rightarrow> 'a object_store \<Rightarrow> store_stats" where
  "getStoreStats now s =
     \<lparr>entries = length s,
      expired = length (filter (\<lambda>(k, e). isExpired (expires e) now) s)\<rparr>"

fun getStats_loop ::
  "int \<Rightarrow> (string \<Rightarrow> 'a object_store) \<Rightarrow> (string \<times> string) list \<Rightarrow> cache_stats \<Rightarrow> cache_stats"
  where
  "getStats_loop now d [] stats = stats"
| "getStats_loop now d ((key, storeName) # rest) stats =
     (let storeStats = getStoreStats now (d storeName)
      in getStats_loop now d rest
           \<lparr>stores_stats = stores_stats stats @ [(key, storeStats)],
            totalEntries = totalEntries stats + entries storeStats,
            expiredEntries = expiredEntries stats + expired storeStats\<rparr>)"

definition getStats :: "int \<Rightarrow> env \<Rightarrow> 'a cache_service \<Rightarrow> js_error + cache_stats" where
  "getStats now env st =
     (let stats = \<lparr>stores_stats = [], totalEntries = 0, expiredEntries = 0\<rparr>
      in if useLocalStorage st then Inr (getLocalStorageStats now env st)
         else if idb_read_ok env then Inr (getStats_loop now (db st) stores stats)
         else Inr stats)"

text \<open>
  \<open>cleanupStore\<close> deletes, under a cursor, every record that is expired at \<open>now\<close> and
  resolves with their number.
  \<^verbatim>\<open>
  async cleanupExpiredEntries() {
      await this.waitForReady();
      try {
          if (this.useLocalStorage) return this.cleanupLocalStorage();
          let totalCleaned = 0;
          for (const storeName of Object.values(this.stores)) {
              const cleaned = await this.cleanupStore(storeName);
              totalCleaned += cleaned;
          }
          if (totalCleaned > 0) console.log(...);
      } catch (error) { console.error(...); }
  }
  \<close>
  The result is \<open>Some n\<close> for the number \<open>n\<close> and \<open>None\<close> for \<open>undefined\<close>, which a
  function returns when it ends without a \<open>return\<close> statement. \<open>cleanupExpiredEntries_loop\<close>
  also yields the final value of the local variable \<open>totalCleaned\<close>.
\<close>

definition cleanupStore :: "int \<Rightarrow> 'a object_store \<Rightarrow> nat \<times> 'a object_store" where
  "cleanupStore now s =
     (length (filter (\<lambda>(k, e). isExpired (expires e) now) s),
      filter (\<lambda>(k, e). \<not> isExpired (expires e) now) s)"

fun cleanupExpiredEntries_loop ::
  "int \<Rightarrow> string list \<Rightarrow> nat \<Rightarrow> (string \<Rightarrow> 'a object_store) \<Rightarrow>
   nat \<times> (string \<Rightarrow> 'a object_store)" where
  "cleanupExpiredEntries_loop now [] totalCleaned d = (totalCleaned, d)"
| "cleanupExpiredEntries_loop now (storeName # rest) totalCleaned d =
     (let (cleaned, s) = cleanupStore now (d storeName)
      in cleanupExpiredEntries_loop now rest (totalCleaned + cleaned) (d(storeName := s)))"

definition cleanupExpiredEntries ::
  "int \<Rightarrow> env \<Rightarrow> 'a cache_service \<Rightarrow> (js_error + nat option) \<times> 'a cache_service" where
  "cleanupExpiredEntries now env st =
     (if useLocalStorage st
      then (let (cleaned, st') = cleanupLocalStorage now env st in (Inr (Some cleaned), st'))
      else if idb_write_ok env
      then (let (totalCleaned, d) = cleanupExpiredEntries_loop now (map snd stores) 0 (db st)
            in (Inr None, st\<lparr>db := d\<rparr>))
      else (Inr None, st))"

text \<open>
  \<open>init\<close>, run by the constructor: \<open>opened\<close> says whether \<open>indexedDB.open\<close> succeeded.
  On success the expired entries are swept (the call is not awaited); on failure
  \<open>fallbackToLocalStorage\<close> sets \<open>useLocalStorage\<close>. \<open>d\<close> and \<open>ls\<close> are what the
  browser holds for the origin.
\<close>

definition init ::
  "bool \<Rightarrow> int \<Rightarrow> env \<Rightarrow> (string \<Rightarrow> 'a object_store) \<Rightarrow> (string \<times> 'a json_text) list \<Rightarrow>
   'a cache_service" where
  "init opened now env d ls =
     (if opened
      then (let st = \<lparr>useLocalStorage = False, db = d, localStorage = ls\<rparr>
            in snd (cleanupExpiredEntries now env st))
      else \<lparr>useLocalStorage = True, db = d, localStorage = ls\<rparr>)"


section \<open>The request caches of services/weather-service.js and services/geocoding.js\<close>

text \<open>
  Both services keep a \<open>Map\<close> from a cache key to \<open>{ data, timestamp }\<close>. A thrown
  \<open>Error\<close> is its \<open>name\<close> and its \<open>message\<close>.
\<close>

record 'a cache_item =
  item_data :: 'a
  item_timestamp :: int

type_synonym 'a request_cache = "string \<rightharpoonup> 'a cache_item"

type_synonym exn = "string \<times> string"

subsection \<open>WeatherService\<close>

definition cacheTimeout :: int where
  "cacheTimeout = 5 * 60 * 1000"

text \<open>
  \<^verbatim>\<open>
  getCachedData(key, allowStale = false) {
      const cached = this.cache.get(key);
      if (!cached) return null;
      const isStale = Date.now() - cached.timestamp > this.cacheTimeout;
      if (isStale && !allowStale) return null;
      return cached.data;
  }
  \<close>
\<close>

definition getCachedData :: "int \<Rightarrow> 'a request_cache \<Rightarrow> string \<Rightarrow> bool \<Rightarrow> 'a option" where
  "getCachedData now cache key allowStale =
     (case cache key of
        None \<Rightarrow> None
      | Some cached \<Rightarrow>
          (let isStale = (now - item_timestamp cached > cacheTimeout)
           in if isStale \<and> \<not> allowStale then None else Some (item_data cached)))"

text \<open>
  \<open>setCachedData\<close> also hands a copy of the fresh entries to the storage service
  (storage-service.js, inside a \<open>try\<close>/\<open>catch\<close>); that copy is read back only by
  \<open>init\<close> and is not part of the model.
\<close>

definition setCachedData :: "int \<Rightarrow> string \<Rightarrow> 'a \<Rightarrow> 'a request_cache \<Rightarrow> 'a request_cache" where
  "setCachedData now key dat cache = cache(key \<mapsto> \<lparr>item_data = dat, item_timestamp = now\<rparr>)"

definition ERRORS_NETWORK :: string where
  "ERRORS_NETWORK = ''Network connection failed. Please check your internet connection.''"

definition ERRORS_API_KEY :: string where
  "ERRORS_API_KEY = ''Invalid API key. Please check your configuration.''"

definition ERRORS_LOCATION_NOT_FOUND :: string where
  "ERRORS_LOCATION_NOT_FOUND = ''Location not found. Please try a different search term.''"

definition ERRORS_UNKNOWN :: string where
  "ERRORS_UNKNOWN = ''An unexpected error occurred. Please try again.''"

definition handleWeatherError :: "exn \<Rightarrow> exn" where
  "handleWeatherError error =
     (if fst error = ''AbortError'' then (''Error'', ERRORS_NETWORK)
      else if sublist ''401'' (snd error) then (''Error'', ERRORS_API_KEY)
      else if sublist ''404'' (snd error) then (''Error'', ERRORS_LOCATION_NOT_FOUND)
      else if sublist ''Failed to fetch'' (snd error) then (''Error'', ERRORS_NETWORK)
      else (''Error'', if snd error = [] then ERRORS_UNKNOWN else snd error))"

text \<open>
  What one call of \<open>getCurrentWeather\<close> did: the value its promise resolves with
  (\<open>Inr\<close>) or rejects with (\<open>Inl\<close>), the cache afterwards, and the number of times it
  started the network request (the call of \<open>retryRequest\<close>).

  \<open>retryRequest\<close> and \<open>fetchWithTimeout\<close> come from utils/api-helpers.js; \<open>net\<close> is
  what the request for the URL, the \<open>response.ok\<close> check, \<open>response.json()\<close> and
  \<open>processCurrentWeatherData\<close> together produce: the processed data, or the error
  thrown on the way. \<open>lat\<close>, \<open>lon\<close>, \<open>units\<close> and \<open>lang\<close> are the texts that
  the template literal of the cache key interpolates. \<open>now\<close> is the time of the first
  cache look-up, \<open>later\<close> the time after the request. The payloads are the objects
  built by \<open>processCurrentWeatherData\<close>, which are truthy, so \<open>if (cached)\<close> tests
  for \<open>null\<close>.
  \<^verbatim>\<open>
      try {
          const cacheKey = `current_${lat}_${lon}_${units}_${lang}`;
          const cached = this.getCachedData(cacheKey);
          if (cached) return cached;
          ... retryRequest(() => fetchWithTimeout(url, ...)) ... processCurrentWeatherData(data) ...
          this.setCachedData(cacheKey, processedData);
          return processedData;
      } catch (error) {
          const staleCache = this.getCachedData(cacheKey, true);
          if (staleCache) return staleCache;
          throw this.handleWeatherError(error);
      }
  \<close>
\<close>

record 'a fetch_result =
  returned :: "exn + 'a"
  cache_after :: "'a request_cache"
  requests :: nat

definition getCurrentWeather ::
  "int \<Rightarrow> int \<Rightarrow> (exn + 'a) \<Rightarrow> string \<Rightarrow> string \<Rightarrow> string \<Rightarrow> string \<Rightarrow> 'a request_cache \<Rightarrow>
   'a fetch_result" where
  "getCurrentWeather now later net lat lon units lang cache =
     (let cacheKey = ''current_'' @ lat @ ''_'' @ lon @ ''_'' @ units @ ''_'' @ lang
      in case getCachedData now cache cacheKey False of
           Some cached \<Rightarrow> \<lparr>returned = Inr cached, cache_after = cache, requests = 0\<rparr>
         | None \<Rightarrow>
             (case net of
                Inr processedData \<Rightarrow>
                  \<lparr>returned = Inr processedData,
                   cache_after = setCachedData later cacheKey processedData cache,
                   requests = 1\<rparr>
              | Inl error \<Rightarrow>
                  (case getCachedData later cache cacheKey True of
                     Some staleCache \<Rightarrow>
                       \<lparr>returned = Inr staleCache, cache_after = cache, requests = 1\<rparr>
                   | None \<Rightarrow>
                       \<lparr>returned = Inl (handleWeatherError error), cache_after = cache,
                        requests = 1\<rparr>)))"

subsection \<open>OpenMeteoService and GeocodingService: searchLocations\<close>

text \<open>
  The effects of a call, in order: the look-ups and the write on \<open>requestCache\<close> and
  the \<open>fetch\<close> for a query.
\<close>

datatype event = CacheHas string | CacheGet string | CacheSet string | Fetch string

record 'a search_result =
  found :: "exn + 'a list"
  requestCache_after :: "'a list request_cache"
  trace :: "event list"

text \<open>\<open>String.prototype.toLowerCase\<close> on the letters A to Z.\<close>

definition toLowerCase :: "string \<Rightarrow> string" where
  "toLowerCase s =
     map (\<lambda>c. case map_of (zip ''ABCDEFGHIJKLMNOPQRSTUVWXYZ'' ''abcdefghijklmnopqrstuvwxyz'') c of
                 Some l \<Rightarrow> l
               | None \<Rightarrow> c) s"

text \<open>
  \<open>query\<close> is \<open>None\<close> for an absent argument (\<open>undefined\<close> or \<open>null\<close>);
  \<open>!query\<close> also holds for the empty string. \<open>net q\<close> is what fetching the search URL
  for \<open>q\<close>, the \<open>response.ok\<close> check, \<open>response.json()\<close> and
  \<open>data.map(this.transformLocationResult)\<close> produce: the transformed results, or the
  error thrown on the way.
  \<^verbatim>\<open>
  async searchLocations(query) {
      if (!query || query.length < 2) return [];
      const cacheKey = `search_${query.toLowerCase()}`;
      if (this.requestCache.has(cacheKey)) {
          const cached = this.requestCache.get(cacheKey);
          if (Date.now() - cached.timestamp < this.cacheTimeout) return cached.data;
      }
      try {
          ... fetch(url) ... transformedData ...
          this.requestCache.set(cacheKey, { data: transformedData, timestamp: Date.now() });
          return transformedData;
      } catch (error) {
          throw new Error(`Failed to search locations: ${error.message}`);
      }
  }
  \<close>
\<close>

definition query_rejected :: "string option \<Rightarrow> bool" where
  "query_rejected query =
     (case query of None \<Rightarrow> True | Some q \<Rightarrow> q = [] \<or> length q < 2)"

definition search_fetch ::
  "int \<Rightarrow> (string \<Rightarrow> exn + 'a list) \<Rightarrow> string \<Rightarrow> string \<Rightarrow> event list \<Rightarrow>
   'a list request_cache \<Rightarrow> 'a search_result" where
  "search_fetch later net q cacheKey seen requestCache =
     (case net q of
        Inr transformedData \<Rightarrow>
          \<lparr>found = Inr transformedData,
           requestCache_after =
             requestCache(cacheKey \<mapsto> \<lparr>item_data = transformedData, item_timestamp = later\<rparr>),
           trace = seen @ [Fetch q, CacheSet cacheKey]\<rparr>
      | Inl error \<Rightarrow>
          \<lparr>found = Inl (''Error'', ''Failed to search locations: '' @ snd error),
           requestCache_after = requestCache,
           trace = seen @ [Fetch q]\<rparr>)"

definition searchLocations ::
  "int \<Rightarrow> int \<Rightarrow> (string \<Rightarrow> exn + 'a list) \<Rightarrow> string option \<Rightarrow> 'a list request_cache \<Rightarrow>
   'a search_result" where
  "searchLocations now later net query requestCache =
     (if query_rejected query
      then \<lparr>found = Inr [], requestCache_after = requestCache, trace = []\<rparr>
      else
        (let q = the query; cacheKey = ''search_'' @ toLowerCase q
         in case requestCache cacheKey of
              None \<Rightarrow> search_fetch later net q cacheKey [CacheHas cacheKey] requestCache
            | Some cached \<Rightarrow>
                if now - item_timestamp cached < cacheTimeout
                then \<lparr>found = Inr (item_data cached), requestCache_after = requestCache,
                      trace = [CacheHas cacheKey, CacheGet cacheKey]\<rparr>
                else search_fetch later net q cacheKey
                       [CacheHas cacheKey, CacheGet cacheKey] requestCache))"

text \<open>
  The wrapper of GeocodingService, which has no cache of its own for searches:
  \<^verbatim>\<open>
  async searchLocations(query) {
      if (!query || query.length < 2) return [];
      try {
          const results = await openMeteoService.searchLocations(query);
          return results;
      } catch (error) {
          throw new Error(`Failed to search locations: ${error.message}`);
      }
  }
  \<close>
\<close>

definition geocoding_searchLocations ::
  "int \<Rightarrow> int \<Rightarrow> (string \<Rightarrow> exn + 'a list) \<Rightarrow> string option \<Rightarrow> 'a list request_cache \<Rightarrow>
   'a search_result" where
  "geocoding_searchLocations now later net query requestCache =
     (if query_rejected query
      then \<lparr>found = Inr [], requestCache_after = requestCache, trace = []\<rparr>
      else
        (let r = searchLocations now later net query requestCache
         in case found r of
              Inr results \<Rightarrow> r
            | Inl error \<Rightarrow>
                r\<lparr>found := Inl (''Error'', ''Failed to search locations: '' @ snd error)\<rparr>))"


section \<open>Concrete inputs\<close>

text \<open>
  Errors and operations for \<open>retry\<close>. \<open>AbortError\<close> is the \<open>DOMException\<close> with
  which a \<open>fetch\<close> rejects when its \<open>AbortController\<close> aborts it on a timeout: its
  name is \<open>AbortError\<close> and its code the number 20. The operations: one that is
  aborted twice and then succeeds, one that is aborted every time, one that always fails
  with status 404. The repository passes no \<open>condition\<close> to \<open>retry\<close> anywhere;
  \<open>reject_4xx\<close> is one a caller could pass, which accepts every error but one with a
  4xx status other than 429.
\<close>

definition AbortError :: thrown where
  "AbortError = Thrown ''AbortError'' (NumCode 20) None"

definition aborts_twice :: "nat \<Rightarrow> thrown + int" where
  "aborts_twice i = (if i < 2 then Inl AbortError else Inr 42)"

definition always_aborts :: "nat \<Rightarrow> thrown + int" where
  "always_aborts i = Inl AbortError"

definition always_404 :: "nat \<Rightarrow> thrown + int" where
  "always_404 i = Inl (APIError 404)"

definition reject_4xx :: "thrown \<Rightarrow> bool" where
  "reject_4xx error =
     (case error of
        Thrown name code (Some status) \<Rightarrow> \<not> (400 \<le> status \<and> status < 500) \<or> status = 429
      | _ \<Rightarrow> True)"

text \<open>
  Environments: every backend request succeeds; the IndexedDB write fails; IndexedDB fails
  altogether. Services over payloads of type \<open>nat\<close>, started on an empty origin: one
  whose database opened and one whose database failed to open.
\<close>

definition all_ok :: env where
  "all_ok = \<lparr>idb_read_ok = True, idb_write_ok = True, ls_ok = True\<rparr>"

definition write_fails :: env where
  "write_fails = \<lparr>idb_read_ok = True, idb_write_ok = False, ls_ok = True\<rparr>"

definition idb_down :: env where
  "idb_down = \<lparr>idb_read_ok = False, idb_write_ok = False, ls_ok = True\<rparr>"

definition empty_db :: "string \<Rightarrow> nat object_store" where
  "empty_db storeName = []"

definition fresh_idb :: "nat cache_service" where
  "fresh_idb = init True 0 all_ok empty_db []"

definition fresh_fallback :: "nat cache_service" where
  "fresh_fallback = init False 0 all_ok empty_db []"

text \<open>
  A request cache of WeatherService holding one entry written at time 1000, a request
  cache of OpenMeteoService holding one search result written at time 1000, and a network
  that is down.
\<close>

definition hit_cache :: "nat request_cache" where
  "hit_cache = setCachedData 1000 ''current_10_20_metric_en'' 7 Map.empty"

definition search_cache :: "nat list request_cache" where
  "search_cache = Map.empty(''search_london'' \<mapsto> \<lparr>item_data = [1, 2], item_timestamp = 1000\<rparr>)"

definition offline :: "string \<Rightarrow> exn + nat list" where
  "offline q = Inl (''TypeError'', ''Failed to fetch'')"

section \<open>Properties of retry\<close>

lemma warn_numeric_code:
  "name \<noteq> ''SecurityError'' \<Longrightarrow> name \<noteq> ''NetworkError'' \<Longrightarrow>
   errorLogger_warn (Thrown name (NumCode n) status) = Inl TypeError"
  by (simp add: errorLogger_warn_def getErrorSeverity_def)

lemma warn_string_code: "errorLogger_warn (Thrown name (StrCode c) status) = Inr ()"
  by (simp add: errorLogger_warn_def getErrorSeverity_def split: bool.splits)

lemma warn_no_code: "errorLogger_warn (Thrown name NoCode status) = Inr ()"
  by (simp add: errorLogger_warn_def getErrorSeverity_def)

lemma retry_loop_reject:
  "fn attempt = Inl e \<Longrightarrow> \<not> c e \<Longrightarrow> int attempt \<le> r \<Longrightarrow>
   retry_loop fn r d b c attempt le ws =
     \<lparr>outcome = Inl (Some e), invocations = attempt + 1, waits = ws\<rparr>"
  by (subst retry_loop.simps) simp

text \<open>
  When the logger accepts the errors, the schedule is the one of C5: two failures and
  a success give the third value after waits of 1000 and 2000 ms.
\<close>

lemma retry_loop_fail_fail_succeed:
  assumes "fn 0 = Inl e0" "fn 1 = Inl e1" "fn 2 = Inr v" "c e0" "c e1"
    and "errorLogger_warn e0 = Inr ()" "errorLogger_warn e1 = Inr ()"
  shows "retry_loop fn 3 1000 2 c 0 None [] =
     \<lparr>outcome = Inr v, invocations = 3, waits = [1000, 2000]\<rparr>"
proof -
  have 2: "retry_loop fn 3 1000 2 c 2 (Some e1) [1000, 2000] =
      \<lparr>outcome = Inr v, invocations = 3, waits = [1000, 2000]\<rparr>"
    using assms(3) by (subst retry_loop.simps) simp
  have 1: "retry_loop fn 3 1000 2 c 1 (Some e0) [1000] =
      retry_loop fn 3 1000 2 c 2 (Some e1) [1000, 2000]"
    using assms(2,5,7) by (subst retry_loop.simps) (simp add: numeral_2_eq_2)
  have 0: "retry_loop fn 3 1000 2 c 0 None [] = retry_loop fn 3 1000 2 c 1 (Some e0) [1000]"
    using assms(1,4,6) by (subst retry_loop.simps) simp
  from 0 1 2 show ?thesis by simp
qed

text \<open>
  And an operation whose every invocation fails with an error that the condition and
  the logger accept is invoked \<open>retries + 1\<close> times, after which \<open>retry\<close> rejects
  with the last error.
\<close>

lemma retry_loop_all_fail:
  "\<forall>i. \<exists>e. fn i = Inl e \<and> c e \<and> errorLogger_warn e = Inr () \<Longrightarrow> int attempt \<le> r \<Longrightarrow>
    \<exists>e. fn (nat r) = Inl e \<and>
      retry_loop fn r d b c attempt le ws =
        \<lparr>outcome = Inl (Some e), invocations = nat r + 1,
         waits = ws @ map (\<lambda>k. d * b ^ k) [attempt..<nat r]\<rparr>"
proof (induction fn r d b c attempt le ws rule: retry_loop.induct)
  case (1 fn r d b c attempt lastError ws)
  from "1.prems"(1) obtain e where e: "fn attempt = Inl e" "c e" "errorLogger_warn e = Inr ()"
    by blast
  show ?case
  proof (cases "int attempt = r")
    case True
    then have "nat r = attempt" by simp
    with e True show ?thesis
      by (subst retry_loop.simps) simp
  next
    case False
    with "1.prems" have lt: "int (attempt + 1) \<le> r" by simp
    from False "1.prems" have up: "[attempt..<nat r] = attempt # [attempt + 1..<nat r]"
      by (simp add: upt_conv_Cons)
    from False e have "\<not> (int attempt = r \<or> \<not> c e)" by simp
    from "1.IH" [OF "1.prems"(2) e(1) this e(3) "1.prems"(1) lt]
    obtain e' where "fn (nat r) = Inl e'"
      "retry_loop fn r d b c (attempt + 1) (Some e) (ws @ [d * b ^ attempt]) =
        \<lparr>outcome = Inl (Some e'), invocations = nat r + 1,
         waits = (ws @ [d * b ^ attempt]) @ map (\<lambda>k. d * b ^ k) [attempt + 1..<nat r]\<rparr>"
      by auto
    with e False "1.prems" up show ?thesis
      by (subst retry_loop.simps) simp
  qed
qed

text \<open>
  C5. The code breaks it for an error whose \<open>code\<close> is a number, such as the
  \<open>AbortError\<close> of a request that timed out: \<open>getErrorSeverity\<close>, which the logger
  calls before the wait, calls \<open>error.code.includes\<close> and throws a \<open>TypeError\<close>. An
  operation that is aborted twice and then succeeds, run with 3 retries, delay 1000 and
  backoff 2, is invoked once; \<open>retry\<close> rejects with the \<open>TypeError\<close> and has not
  waited. The same for an operation that is aborted every time: one invocation, not four,
  and the rejection is not the operation's last error.
\<close>

theorem retry_stops_on_numeric_error_code:
  "retry aborts_twice \<lparr>retries = Some 3, delay = Some 1000, backoff = Some 2, condition = None\<rparr> =
     \<lparr>outcome = Inl (Some TypeError), invocations = 1, waits = []\<rparr> \<and>
   retry always_aborts \<lparr>retries = Some 3, delay = Some 1000, backoff = Some 2, condition = None\<rparr> =
     \<lparr>outcome = Inl (Some TypeError), invocations = 1, waits = []\<rparr> \<and>
   TypeError \<noteq> AbortError"
  by (simp add: retry_def aborts_twice_def always_aborts_def AbortError_def TypeError_def
      errorLogger_warn_def getErrorSeverity_def retry_loop.simps)

text \<open>
  C6, as stated, fails: with the default options the condition is \<open>() => true\<close>, so an
  operation that always fails with an \<open>APIError\<close> of status 404 is invoked four times,
  with waits of 1000, 2000 and 4000 ms.
\<close>

theorem retry_default_condition_retries_404:
  "retry always_404 no_options =
     \<lparr>outcome = Inl (Some (APIError 404)), invocations = 4, waits = [1000, 2000, 4000]\<rparr> \<and>
   invocations (retry always_404 no_options) \<noteq> 1"
  by (simp add: retry_def no_options_def always_404_def APIError_def warn_string_code
      retry_loop.simps)

text \<open>
  C6, amended. When the caller passes a condition that rejects the error of the first
  invocation (and \<open>retries\<close> is not negative), \<open>retry\<close> rejects with that error after
  this one invocation and without waiting.
\<close>

theorem retry_rejected_error_not_retried:
  assumes "fn 0 = Inl e" and "condition opts = Some c" and "\<not> c e"
    and "case retries opts of None \<Rightarrow> True | Some r \<Rightarrow> 0 \<le> r"
  shows "retry fn opts = \<lparr>outcome = Inl (Some e), invocations = 1, waits = []\<rparr>"
  using assms retry_loop_reject [of fn 0 e c]
  by (auto simp: retry_def split: option.splits)

theorem retry_rejected_error_not_retried_witness:
  "retry always_404 \<lparr>retries = Some 3, delay = Some 1000, backoff = Some 2,
     condition = Some reject_4xx\<rparr> =
   \<lparr>outcome = Inl (Some (APIError 404)), invocations = 1, waits = []\<rparr>"
  using retry_rejected_error_not_retried [of always_404 "APIError 404"
     "\<lparr>retries = Some 3, delay = Some 1000, backoff = Some 2, condition = Some reject_4xx\<rparr>"
     reject_4xx]
  by (simp add: always_404_def reject_4xx_def APIError_def)

section \<open>Properties of the cache service\<close>

subsection \<open>The tables and the entry built by set\<close>

lemma getStore_cases:
  "getStore type = Store s \<Longrightarrow>
   s = ''weather-data'' \<or> s = ''location-data'' \<or> s = ''image-cache'' \<or> s = ''app-settings''"
  by (auto simp: getStore_def get_property_def stores_def split: if_splits)

lemma ttl_of_truthy: "truthy (ttl_of customTTL type)"
  by (simp add: ttl_of_def get_property_def expirationTimes_def)

lemma ttl_of_given: "n \<noteq> 0 \<Longrightarrow> ttl_of (Num n) type = Num n"
  by (simp add: ttl_of_def)

lemma ttl_of_falsy:
  "customTTL = Num 0 \<or> customTTL = JNull \<Longrightarrow> ttl_of customTTL type = ttl_of JNull type"
  by (auto simp: ttl_of_def)

lemma ttl_of_default:
  "map_of expirationTimes type = Some t \<Longrightarrow> ttl_of JNull type = t"
  by (auto simp: ttl_of_def get_property_def expirationTimes_def split: if_splits)

lemma ttl_of_unknown:
  "map_of expirationTimes type = None \<Longrightarrow> type \<notin> set Object_prototype \<Longrightarrow>
   ttl_of JNull type = Num 600000"
  by (simp add: ttl_of_def get_property_def expirationTimes_def)

lemma expires_new_entry:
  "expires (new_entry now key d type customTTL) =
     (if ttl_of customTTL type = Infinity then Never else js_add now (ttl_of customTTL type))"
  by (simp add: new_entry_def Let_def)

lemma not_expired_at_creation:
  "ttl_of customTTL type = Num n \<Longrightarrow> 0 \<le> n \<Longrightarrow>
   \<not> isExpired (expires (new_entry now key v type customTTL)) now"
  by (simp add: expires_new_entry)

lemma stringify_finite:
  "ttl_of customTTL type = Num n \<Longrightarrow>
   JSON_stringify (new_entry now key v type customTTL) =
     JsonText (new_entry now key v type customTTL)"
  by (simp add: JSON_stringify_def expires_new_entry)

text \<open>
  A type that is the name of a member of \<open>Object.prototype\<close>: the time to live is a
  function, the expiry a string that compares as \<open>NaN\<close>, so the entry never expires,
  and no object store is found for it.
\<close>

lemma inherited_type_name:
  "ttl_of JNull ''constructor'' = Inherited \<and>
   expires (new_entry 1000 ''k'' (7::nat) ''constructor'' JNull) = NaNText \<and>
   getStore ''constructor'' = NotAStore"
  by (simp add: ttl_of_def getStore_def get_property_def Object_prototype_def expirationTimes_def
      stores_def new_entry_def)

subsection \<open>Association lists with distinct keys\<close>

lemma length_filter_delete:
  "distinct (map fst xs) \<Longrightarrow> map_of xs k = Some v \<Longrightarrow> P (k, v) \<Longrightarrow>
   Suc (length (filter P (AList.delete k xs))) = length (filter P xs)"
proof (induction xs)
  case Nil
  then show ?case by simp
next
  case (Cons p xs)
  show ?case
  proof (cases "fst p = k")
    case True
    with Cons.prems have "k \<notin> fst ` set xs" and "p = (k, v)"
      by (auto simp: rev_image_eqI)
    then show ?thesis using Cons.prems(3)
      by (simp add: AList.delete_simps)
  next
    case False
    with Cons show ?thesis
      by (cases p) (auto simp: AList.delete_simps)
  qed
qed

lemma length_delete:
  "distinct (map fst xs) \<Longrightarrow> map_of xs k = Some v \<Longrightarrow>
   Suc (length (AList.delete k xs)) = length xs"
  using length_filter_delete [of xs k v "\<lambda>_. True"] by simp

text \<open>
  Both backends keep one record per key; \<open>set\<close>, \<open>get\<close> and \<open>delete\<close> preserve this.
\<close>

lemma unique_keys_preserved:
  assumes "\<forall>s. distinct (map fst (db st s))" and "distinct (map fst (localStorage st))"
  shows "\<forall>s. distinct (map fst (db (snd (cache_set now key v type customTTL env st)) s))"
    and "distinct (map fst (localStorage (snd (cache_set now key v type customTTL env st))))"
    and "\<forall>s. distinct (map fst (db (snd (cache_get now key type env st)) s))"
    and "distinct (map fst (localStorage (snd (cache_get now key type env st))))"
    and "\<forall>s. distinct (map fst (db (snd (cache_delete key type env st)) s))"
    and "distinct (map fst (localStorage (snd (cache_delete key type env st))))"
  using assms
  by (auto simp: cache_set_def cache_get_def cache_delete_def Let_def idb_put_def idb_get_def
      idb_delete_def setLocalStorage_def getLocalStorage_def deleteLocalStorage_def ls_setItem_def
      ls_getItem_def ls_removeItem_def AList.distinct_update AList.distinct_delete
      split: option.splits sum.splits if_splits prod.splits store_ref.splits)

subsection \<open>What each method does on each backend\<close>

lemma cache_set_idb:
  "\<not> useLocalStorage st \<Longrightarrow> idb_write_ok env \<Longrightarrow> getStore type = Store s \<Longrightarrow>
   cache_set now key v type customTTL env st =
     (Inr (), st\<lparr>db := (db st)(s :=
        AList.update key (new_entry now key v type customTTL) (db st s))\<rparr>)"
  by (simp add: cache_set_def idb_put_def new_entry_def Let_def)

lemma cache_set_ls:
  "useLocalStorage st \<or> \<not> idb_write_ok env \<Longrightarrow>
   cache_set now key v type customTTL env st =
     (Inr (), setLocalStorage env key (new_entry now key v type customTTL) st)"
  by (auto simp: cache_set_def idb_put_def Let_def split: store_ref.splits)

lemma cache_get_idb_hit:
  "\<not> useLocalStorage st \<Longrightarrow> idb_read_ok env \<Longrightarrow> getStore type = Store s \<Longrightarrow>
   map_of (db st s) key = Some e \<Longrightarrow> \<not> isExpired (expires e) now \<Longrightarrow>
   cache_get now key type env st = (Inr (Some (data e)), st)"
  by (simp add: cache_get_def idb_get_def)

lemma cache_get_idb_expired:
  "\<not> useLocalStorage st \<Longrightarrow> idb_read_ok env \<Longrightarrow> idb_write_ok env \<Longrightarrow>
   getStore type = Store s \<Longrightarrow>
   map_of (db st s) key = Some e \<Longrightarrow> isExpired (expires e) now \<Longrightarrow>
   cache_get now key type env st =
     (Inr None, st\<lparr>db := (db st)(s := AList.delete key (db st s))\<rparr>)"
  by (simp add: cache_get_def idb_get_def cache_delete_def idb_delete_def)

lemma cache_get_ls:
  "useLocalStorage st \<or> \<not> idb_read_ok env \<Longrightarrow>
   cache_get now key type env st =
     (Inr (fst (getLocalStorage now env key st)), snd (getLocalStorage now env key st))"
  by (auto simp: cache_get_def idb_get_def split: prod.splits store_ref.splits)

lemma setLocalStorage_ok:
  "ls_ok env \<Longrightarrow>
   setLocalStorage env key e st =
     st\<lparr>localStorage := AList.update (''cache_'' @ key) (JSON_stringify e) (localStorage st)\<rparr>"
  by (simp add: setLocalStorage_def ls_setItem_def)

lemma getLocalStorage_hit:
  "ls_ok env \<Longrightarrow> map_of (localStorage st) (''cache_'' @ key) = Some (JsonText e) \<Longrightarrow>
   \<not> isExpired (expires e) now \<Longrightarrow>
   getLocalStorage now env key st = (Some (data e), st)"
  by (simp add: getLocalStorage_def ls_getItem_def)

lemma getLocalStorage_expired:
  "ls_ok env \<Longrightarrow> map_of (localStorage st) (''cache_'' @ key) = Some (JsonText e) \<Longrightarrow>
   isExpired (expires e) now \<Longrightarrow>
   getLocalStorage now env key st =
     (None, st\<lparr>localStorage := AList.delete (''cache_'' @ key) (localStorage st)\<rparr>)"
  by (simp add: getLocalStorage_def ls_getItem_def ls_removeItem_def)

lemma ls_counted_cache_key: "ls_counted (''cache_'' @ key, JsonText e)"
  by (simp add: ls_counted_def)

lemma totalEntries_getStats_idb:
  "\<not> useLocalStorage st \<Longrightarrow> idb_read_ok env \<Longrightarrow>
   \<exists>s. getStats now env st = Inr s \<and>
     totalEntries s = length (db st ''weather-data'') + length (db st ''location-data'') +
       length (db st ''image-cache'') + length (db st ''app-settings'')"
  by (simp add: getStats_def stores_def Let_def getStoreStats_def)

lemma totalEntries_getStats_ls:
  "useLocalStorage st \<Longrightarrow> ls_ok env \<Longrightarrow>
   \<exists>s. getStats now env st = Inr s \<and>
     totalEntries s = length (filter ls_counted (localStorage st))"
  by (simp add: getStats_def getLocalStorageStats_def Let_def)

lemma idb_clear_each_fails:
  "\<not> idb_write_ok env \<Longrightarrow> l \<noteq> [] \<Longrightarrow> idb_clear_each env l d = Inl DOMException"
  by (cases l) (simp_all add: idb_clear_def)

lemma no_rejection:
  "fst (cache_set now key v type customTTL env st) = Inr ()"
  "\<exists>r. fst (cache_get now key type env st) = Inr r"
  "fst (cache_delete key type env st) = Inr ()"
  "fst (clearType type env st) = Inr ()"
  "fst (clearAll env st) = Inr ()"
  by (auto simp: cache_set_def cache_get_def cache_delete_def clearType_def clearAll_def Let_def
      split: sum.splits option.splits prod.splits)

lemma fallback_mode:
  assumes "useLocalStorage st"
  shows "snd (cache_delete key type env st) = deleteLocalStorage env key st"
    and "snd (clearType type env st) = clearLocalStorageType type env st"
    and "snd (clearAll env st) = clearAllLocalStorage env st"
  using assms by (simp_all add: cache_delete_def clearType_def clearAll_def)

lemma swallowed:
  assumes "\<not> useLocalStorage st" and "\<not> idb_write_ok env"
  shows "snd (cache_delete key type env st) = st"
    and "snd (clearType type env st) = st"
    and "snd (clearAll env st) = st"
  using assms
  by (simp_all add: cache_delete_def clearType_def clearAll_def idb_delete_def idb_clear_def
      idb_clear_each_fails stores_def split: store_ref.splits)

subsection \<open>Reading back what was written\<close>

text \<open>
  On IndexedDB, for a type that has an object store: \<open>get\<close> at the instant of \<open>set\<close>
  returns the value unless the entry is expired at its own timestamp, and \<open>get\<close> at a
  time when the entry is expired returns \<open>null\<close>, deletes the record and lowers
  \<open>totalEntries\<close> by one.
\<close>

lemma get_after_set_idb:
  assumes idb: "\<not> useLocalStorage st" and ok: "idb_read_ok env" "idb_write_ok env"
    and store: "getStore type = Store s"
    and ttl: "\<not> isExpired (expires (new_entry now key v type customTTL)) now"
    and dist: "distinct (map fst (db st s))"
  shows "fst (cache_get now key type env (snd (cache_set now key v type customTTL env st))) =
           Inr (Some v)"
    and "isExpired (expires (new_entry now key v type customTTL)) later \<Longrightarrow>
         fst (cache_get later key type env (snd (cache_set now key v type customTTL env st))) =
           Inr None \<and>
         map_of (db (snd (cache_get later key type env
           (snd (cache_set now key v type customTTL env st)))) s) key = None \<and>
         (\<exists>s1 s2. getStats later env (snd (cache_set now key v type customTTL env st)) = Inr s1 \<and>
            getStats later env (snd (cache_get later key type env
              (snd (cache_set now key v type customTTL env st)))) = Inr s2 \<and>
            totalEntries s1 = Suc (totalEntries s2))"
proof -
  let ?e = "new_entry now key v type customTTL"
  let ?d1 = "(db st)(s := AList.update key ?e (db st s))"
  let ?st1 = "st\<lparr>db := ?d1\<rparr>"
  have st1: "snd (cache_set now key v type customTTL env st) = ?st1"
    using idb ok store by (simp add: cache_set_idb)
  have idb1: "\<not> useLocalStorage ?st1" using idb by simp
  have look: "map_of (db ?st1 s) key = Some ?e"
    by (simp add: AList.update_conv')
  have dat: "data ?e = v" by (simp add: new_entry_def Let_def)
  from cache_get_idb_hit [OF idb1 ok(1) store look ttl] dat
  show "fst (cache_get now key type env (snd (cache_set now key v type customTTL env st))) =
           Inr (Some v)"
    by (simp add: st1)
  assume ex: "isExpired (expires ?e) later"
  let ?d2 = "?d1(s := AList.delete key (?d1 s))"
  let ?st2 = "?st1\<lparr>db := ?d2\<rparr>"
  from cache_get_idb_expired [OF idb1 ok store look ex]
  have g: "cache_get later key type env ?st1 = (Inr None, ?st2)" by simp
  have gone: "map_of (db ?st2 s) key = None"
    by (simp add: AList.delete_conv')
  have "distinct (map fst (?d1 s))"
    using dist by (simp add: AList.distinct_update)
  moreover have "map_of (?d1 s) key = Some ?e" by (simp add: AList.update_conv')
  ultimately have len: "Suc (length (AList.delete key (?d1 s))) = length (?d1 s)"
    by (rule length_delete)
  from totalEntries_getStats_idb [OF idb1 ok(1), of later]
  obtain s1 where s1: "getStats later env ?st1 = Inr s1"
    "totalEntries s1 = length (?d1 ''weather-data'') + length (?d1 ''location-data'') +
       length (?d1 ''image-cache'') + length (?d1 ''app-settings'')"
    by auto
  have idb2: "\<not> useLocalStorage ?st2" using idb by simp
  from totalEntries_getStats_idb [OF idb2 ok(1), of later]
  obtain s2 where s2: "getStats later env ?st2 = Inr s2"
    "totalEntries s2 = length (?d2 ''weather-data'') + length (?d2 ''location-data'') +
       length (?d2 ''image-cache'') + length (?d2 ''app-settings'')"
    by auto
  have "totalEntries s1 = Suc (totalEntries s2)"
    using getStore_cases [OF store] len s1(2) s2(2)
    by (elim disjE) simp_all
  with s1(1) s2(1) g gone
  show "fst (cache_get later key type env (snd (cache_set now key v type customTTL env st))) =
           Inr None \<and>
         map_of (db (snd (cache_get later key type env
           (snd (cache_set now key v type customTTL env st)))) s) key = None \<and>
         (\<exists>s1 s2. getStats later env (snd (cache_set now key v type customTTL env st)) = Inr s1 \<and>
            getStats later env (snd (cache_get later key type env
              (snd (cache_set now key v type customTTL env st)))) = Inr s2 \<and>
            totalEntries s1 = Suc (totalEntries s2))"
    by (simp add: st1)
qed

text \<open>
  On localStorage, for a time to live that is a number: the same.
\<close>

lemma get_after_set_ls:
  assumes set_ls: "useLocalStorage st \<or> \<not> idb_write_ok env"
    and get_ls: "useLocalStorage st \<or> \<not> idb_read_ok env'"
    and ok: "ls_ok env" "ls_ok env'"
    and ttl: "ttl_of customTTL type = Num n" "0 \<le> n"
  shows "fst (cache_get now key type env' (snd (cache_set now key v type customTTL env st))) =
           Inr (Some v)"
proof -
  let ?K = "''cache_'' @ key"
  let ?e = "new_entry now key v type customTTL"
  let ?st1 = "st\<lparr>localStorage := AList.update ?K (JsonText ?e) (localStorage st)\<rparr>"
  have st1: "snd (cache_set now key v type customTTL env st) = ?st1"
    using set_ls ok(1) stringify_finite [OF ttl(1), of now key v]
    by (simp add: cache_set_ls setLocalStorage_ok)
  have look: "map_of (localStorage ?st1) ?K = Some (JsonText ?e)"
    by (simp add: AList.update_conv')
  have fresh: "\<not> isExpired (expires ?e) now"
    using ttl by (rule not_expired_at_creation)
  have dat: "data ?e = v" by (simp add: new_entry_def Let_def)
  from get_ls have "useLocalStorage ?st1 \<or> \<not> idb_read_ok env'" by simp
  from cache_get_ls [OF this, of now key type]
    getLocalStorage_hit [OF ok(2) look fresh] dat
  show ?thesis by (simp add: st1)
qed

lemma expired_get_ls:
  assumes ls: "useLocalStorage st" and ok: "ls_ok env"
    and ttl: "ttl_of customTTL type = Num n"
    and ex: "isExpired (expires (new_entry now key v type customTTL)) later"
    and dist: "distinct (map fst (localStorage st))"
  shows "fst (cache_get later key type env (snd (cache_set now key v type customTTL env st))) =
           Inr None \<and>
         map_of (localStorage (snd (cache_get later key type env
           (snd (cache_set now key v type customTTL env st))))) (''cache_'' @ key) = None \<and>
         (\<exists>s1 s2. getStats later env (snd (cache_set now key v type customTTL env st)) = Inr s1 \<and>
            getStats later env (snd (cache_get later key type env
              (snd (cache_set now key v type customTTL env st)))) = Inr s2 \<and>
            totalEntries s1 = Suc (totalEntries s2))"
proof -
  let ?K = "''cache_'' @ key"
  let ?e = "new_entry now key v type customTTL"
  let ?l1 = "AList.update ?K (JsonText ?e) (localStorage st)"
  let ?st1 = "st\<lparr>localStorage := ?l1\<rparr>"
  have st1: "snd (cache_set now key v type customTTL env st) = ?st1"
    using ls ok stringify_finite [OF ttl, of now key v]
    by (simp add: cache_set_ls setLocalStorage_ok)
  have look: "map_of (localStorage ?st1) ?K = Some (JsonText ?e)"
    by (simp add: AList.update_conv')
  let ?st2 = "?st1\<lparr>localStorage := AList.delete ?K (localStorage ?st1)\<rparr>"
  from ls have ls1: "useLocalStorage ?st1 \<or> \<not> idb_read_ok env" by simp
  from cache_get_ls [OF ls1, of later key type] getLocalStorage_expired [OF ok look ex]
  have g: "cache_get later key type env ?st1 = (Inr None, ?st2)" by simp
  have gone: "map_of (localStorage ?st2) ?K = None"
    by (simp add: AList.delete_conv')
  have "distinct (map fst ?l1)" using dist by (simp add: AList.distinct_update)
  moreover have "map_of ?l1 ?K = Some (JsonText ?e)" by (simp add: AList.update_conv')
  ultimately have len: "Suc (length (filter ls_counted (AList.delete ?K ?l1))) =
      length (filter ls_counted ?l1)"
    using ls_counted_cache_key by (rule length_filter_delete)
  from ls have u1: "useLocalStorage ?st1" and u2: "useLocalStorage ?st2" by simp_all
  from totalEntries_getStats_ls [OF u1 ok, of later] totalEntries_getStats_ls [OF u2 ok, of later] len
  have "\<exists>s1 s2. getStats later env ?st1 = Inr s1 \<and> getStats later env ?st2 = Inr s2 \<and>
      totalEntries s1 = Suc (totalEntries s2)"
    by auto
  with g gone show ?thesis by (simp add: st1)
qed

text \<open>
  C1. The code breaks it on the localStorage fallback for an entry that never expires,
  the type \<open>setting\<close> of the table: \<open>set\<close> computes \<open>expires = Infinity\<close>,
  \<open>JSON.stringify\<close> writes it as \<open>null\<close>, and \<open>getLocalStorage\<close>, which tests
  \<open>expires !== Infinity\<close>, finds \<open>Date.now() > null\<close>, removes the record and returns
  \<open>null\<close>. On a service whose database failed to open, \<open>get("theme", "setting")\<close> at
  the instant of \<open>set("theme", 7, "setting")\<close> returns \<open>null\<close> and the record is
  gone; on IndexedDB the same calls return 7.
\<close>

theorem setting_lost_on_localStorage:
  "localStorage (snd (cache_set 1000 ''theme'' (7::nat) ''setting'' JNull all_ok fresh_fallback)) =
     [(''cache_theme'', JsonText \<lparr>entry_id = ''theme'', data = 7, entry_type = ''setting'',
         timestamp = 1000, expires = NullExpiry\<rparr>)] \<and>
   cache_get 1000 ''theme'' ''setting'' all_ok
     (snd (cache_set 1000 ''theme'' (7::nat) ''setting'' JNull all_ok fresh_fallback)) =
     (Inr None, fresh_fallback) \<and>
   fst (cache_get 1000 ''theme'' ''setting'' all_ok
     (snd (cache_set 1000 ''theme'' (7::nat) ''setting'' JNull all_ok fresh_idb))) = Inr (Some 7)"
  by (simp add: all_ok_def empty_db_def fresh_idb_def init_def cleanupExpiredEntries_def cleanupStore_def
      stores_def fresh_fallback_def
      cache_set_def new_entry_def ttl_of_def expirationTimes_def getStore_def idb_put_def
      setLocalStorage_def ls_setItem_def JSON_stringify_def get_property_def Object_prototype_def
      cache_get_def cache_delete_def idb_get_def idb_delete_def getLocalStorage_def
      deleteLocalStorage_def ls_getItem_def ls_removeItem_def)

text \<open>
  C2, as stated for \<open>get(key, type, allowStale = true)\<close>, fails: \<open>get\<close> of the cache
  service has no third parameter and no stale mode. An entry written at time 0 with the
  weather default of 600000 ms is not returned at time 600001.
\<close>

theorem cache_service_get_has_no_stale_mode:
  "fst (cache_get 600001 ''k'' ''weather'' all_ok
     (snd (cache_set 0 ''k'' (7::nat) ''weather'' JNull all_ok fresh_idb))) = Inr None"
  by (simp add: all_ok_def empty_db_def fresh_idb_def init_def cleanupExpiredEntries_def cleanupStore_def
      stores_def
      cache_set_def new_entry_def ttl_of_def expirationTimes_def getStore_def idb_put_def
      setLocalStorage_def ls_setItem_def JSON_stringify_def get_property_def Object_prototype_def
      cache_get_def cache_delete_def idb_get_def idb_delete_def getLocalStorage_def
      deleteLocalStorage_def ls_getItem_def ls_removeItem_def)

text \<open>
  C3. The code breaks it: \<open>stores\<close> is keyed by \<open>weather\<close>, \<open>locations\<close>,
  \<open>images\<close>, \<open>settings\<close>, while the types are \<open>weather\<close>, \<open>location\<close>,
  \<open>image\<close>, \<open>setting\<close>; \<open>getStore ''location''\<close> falls back to the weather store.
  After \<open>set("a", 1, "weather")\<close> and \<open>set("a", 2, "location")\<close> the weather store
  holds one record for \<open>a\<close>, with payload 2, which \<open>get("a", "weather")\<close> returns; and
  after \<open>clearType("weather")\<close>, \<open>get("a", "location")\<close> returns \<open>null\<close>.
\<close>

theorem location_type_shares_weather_store:
  "getStore ''location'' = getStore ''weather'' \<and>
   fst (cache_get 1000 ''a'' ''weather'' all_ok
     (snd (cache_set 1000 ''a'' (2::nat) ''location'' JNull all_ok
       (snd (cache_set 1000 ''a'' 1 ''weather'' JNull all_ok fresh_idb))))) = Inr (Some 2) \<and>
   length (db (snd (cache_set 1000 ''a'' (2::nat) ''location'' JNull all_ok
       (snd (cache_set 1000 ''a'' 1 ''weather'' JNull all_ok fresh_idb)))) ''weather-data'') = 1 \<and>
   fst (cache_get 1000 ''a'' ''location'' all_ok
     (snd (clearType ''weather'' all_ok
       (snd (cache_set 1000 ''a'' (2::nat) ''location'' JNull all_ok
         (snd (cache_set 1000 ''a'' 1 ''weather'' JNull all_ok fresh_idb))))))) = Inr None"
  by (simp add: all_ok_def empty_db_def fresh_idb_def init_def cleanupExpiredEntries_def cleanupStore_def
      stores_def
      cache_set_def new_entry_def ttl_of_def expirationTimes_def getStore_def idb_put_def
      setLocalStorage_def ls_setItem_def JSON_stringify_def get_property_def Object_prototype_def
      cache_get_def cache_delete_def idb_get_def idb_delete_def getLocalStorage_def
      deleteLocalStorage_def ls_getItem_def ls_removeItem_def
      clearType_def idb_clear_def)

text \<open>
  C4, as stated, fails: a \<open>set\<close> whose IndexedDB write fails puts the entry into
  localStorage, but the \<open>get\<close> that follows reads IndexedDB, which works again and does
  not hold the entry, and returns \<open>null\<close>.
\<close>

theorem get_after_fallback_write_misses:
  "fst (cache_get 1000 ''k'' ''weather'' all_ok
     (snd (cache_set 1000 ''k'' (7::nat) ''weather'' JNull write_fails fresh_idb))) = Inr None"
  by (simp add: all_ok_def empty_db_def fresh_idb_def init_def cleanupExpiredEntries_def cleanupStore_def
      stores_def write_fails_def
      cache_set_def new_entry_def ttl_of_def expirationTimes_def getStore_def idb_put_def
      setLocalStorage_def ls_setItem_def JSON_stringify_def get_property_def Object_prototype_def
      cache_get_def cache_delete_def idb_get_def idb_delete_def getLocalStorage_def
      deleteLocalStorage_def ls_getItem_def ls_removeItem_def)

text \<open>
  C4, amended. No public method rejects, whatever the backends do. A service whose
  database failed to open runs on localStorage: there, and when the IndexedDB request of
  the call fails, \<open>set\<close> writes to localStorage and \<open>get\<close> reads from it;
  \<open>delete\<close>, \<open>clearType\<close> and \<open>clearAll\<close> use localStorage on such a service, and
  leave everything as it is when their IndexedDB request fails at run time. When \<open>set\<close>
  and the \<open>get\<close> that follows both go to localStorage, localStorage accepts both calls
  and the time to live is a number \<open>n \<ge> 0\<close>, that \<open>get\<close> returns the written value.
\<close>

theorem backend_failures_not_propagated:
  "fst (cache_set now key v type customTTL env st) = Inr () \<and>
   (\<exists>r. fst (cache_get now key type env st) = Inr r) \<and>
   fst (cache_delete key type env st) = Inr () \<and>
   fst (clearType type env st) = Inr () \<and>
   fst (clearAll env st) = Inr () \<and>
   useLocalStorage (init False now env d ls) \<and>
   (useLocalStorage st \<or> \<not> idb_write_ok env \<longrightarrow>
      snd (cache_set now key v type customTTL env st) =
        setLocalStorage env key (new_entry now key v type customTTL) st) \<and>
   (useLocalStorage st \<or> \<not> idb_read_ok env \<longrightarrow>
      cache_get now key type env st =
        (Inr (fst (getLocalStorage now env key st)), snd (getLocalStorage now env key st))) \<and>
   (useLocalStorage st \<longrightarrow>
      snd (cache_delete key type env st) = deleteLocalStorage env key st \<and>
      snd (clearType type env st) = clearLocalStorageType type env st \<and>
      snd (clearAll env st) = clearAllLocalStorage env st) \<and>
   (\<not> useLocalStorage st \<and> \<not> idb_write_ok env \<longrightarrow>
      snd (cache_delete key type env st) = st \<and>
      snd (clearType type env st) = st \<and>
      snd (clearAll env st) = st) \<and>
   ((useLocalStorage st \<or> \<not> idb_write_ok env \<and> \<not> idb_read_ok env') \<and>
    ls_ok env \<and> ls_ok env' \<and> (\<exists>n. ttl_of customTTL type = Num n \<and> 0 \<le> n) \<longrightarrow>
      fst (cache_get now key type env' (snd (cache_set now key v type customTTL env st))) =
        Inr (Some v))"
proof -
  have a: "(useLocalStorage st \<or> \<not> idb_write_ok env \<and> \<not> idb_read_ok env') \<and>
    ls_ok env \<and> ls_ok env' \<and> (\<exists>n. ttl_of customTTL type = Num n \<and> 0 \<le> n) \<longrightarrow>
      fst (cache_get now key type env' (snd (cache_set now key v type customTTL env st))) =
        Inr (Some v)"
    using get_after_set_ls [where st = st and env = env and env' = env' and customTTL = customTTL
        and type = type and now = now and key = key and v = v]
    by blast
  have b: "useLocalStorage (init False now env d ls)" by (simp add: init_def)
  have c: "useLocalStorage st \<or> \<not> idb_write_ok env \<longrightarrow>
      snd (cache_set now key v type customTTL env st) =
        setLocalStorage env key (new_entry now key v type customTTL) st"
    by (simp add: cache_set_ls)
  have d: "useLocalStorage st \<or> \<not> idb_read_ok env \<longrightarrow>
      cache_get now key type env st =
        (Inr (fst (getLocalStorage now env key st)), snd (getLocalStorage now env key st))"
    using cache_get_ls by blast
  from a b c d show ?thesis
    by (simp add: no_rejection fallback_mode swallowed)
qed

theorem backend_failures_not_propagated_witness:
  "fst (cache_get 1000 ''k'' ''weather'' all_ok
     (snd (cache_set 1000 ''k'' (7::nat) ''weather'' JNull all_ok fresh_fallback))) = Inr (Some 7) \<and>
   fst (cache_get 1000 ''k'' ''weather'' idb_down
     (snd (cache_set 1000 ''k'' (7::nat) ''weather'' JNull idb_down fresh_idb))) = Inr (Some 7) \<and>
   snd (cache_delete ''k'' ''weather'' idb_down fresh_idb) = fresh_idb"
proof -
  have fb: "useLocalStorage fresh_fallback" "\<not> useLocalStorage fresh_idb"
    by (simp_all add: fresh_fallback_def fresh_idb_def init_def cleanupExpiredEntries_def
        all_ok_def Let_def split: prod.splits)
  have ok: "ls_ok all_ok" "ls_ok idb_down" "\<not> idb_write_ok idb_down" "\<not> idb_read_ok idb_down"
    by (simp_all add: all_ok_def idb_down_def)
  have ttl: "\<exists>n. ttl_of JNull ''weather'' = Num n \<and> 0 \<le> n"
    by (simp add: ttl_of_def get_property_def expirationTimes_def)
  from fb ok ttl
    backend_failures_not_propagated [where st = fresh_fallback and env = all_ok
      and env' = all_ok and now = 1000 and key = "''k''" and v = 7 and type = "''weather''"
      and customTTL = JNull]
  have 1: "fst (cache_get 1000 ''k'' ''weather'' all_ok
     (snd (cache_set 1000 ''k'' (7::nat) ''weather'' JNull all_ok fresh_fallback))) = Inr (Some 7)"
    by blast
  from fb ok ttl
    backend_failures_not_propagated [where st = fresh_idb and env = idb_down
      and env' = idb_down and now = 1000 and key = "''k''" and v = 7 and type = "''weather''"
      and customTTL = JNull]
  have 2: "fst (cache_get 1000 ''k'' ''weather'' idb_down
     (snd (cache_set 1000 ''k'' (7::nat) ''weather'' JNull idb_down fresh_idb))) = Inr (Some 7) \<and>
   snd (cache_delete ''k'' ''weather'' idb_down fresh_idb) = fresh_idb"
    by blast
  from 1 2 show ?thesis by simp
qed

text \<open>
  What \<open>cleanupExpiredEntries\<close> returns: on IndexedDB always \<open>undefined\<close>; on
  localStorage the number removed, which is 0 for a second sweep at the same instant.
\<close>

lemma cleanup_idb_returns_undefined:
  "\<not> useLocalStorage st \<Longrightarrow> fst (cleanupExpiredEntries now env st) = Inr None"
  by (simp add: cleanupExpiredEntries_def split: prod.splits)

lemma cleanupStore_twice: "fst (cleanupStore now (snd (cleanupStore now s))) = 0"
  by (simp add: cleanupStore_def) (induction s, auto)

lemma cleanup_ls_twice:
  "useLocalStorage st \<Longrightarrow> ls_ok env \<Longrightarrow>
   fst (cleanupExpiredEntries now env (snd (cleanupExpiredEntries now env st))) = Inr (Some 0)"
  by (simp add: cleanupExpiredEntries_def cleanupLocalStorage_def)

text \<open>
  C7. The code breaks it on IndexedDB: the loop adds up \<open>totalCleaned\<close> but the method
  ends without returning it, whereas the localStorage branch returns its count. With one
  expired entry in the weather store, the sweep removes the entry and resolves with
  \<open>undefined\<close>, not 1; the second sweep resolves with \<open>undefined\<close>, not 0.
\<close>

theorem cleanup_on_idb_returns_no_count:
  "cleanupExpiredEntries 700000 all_ok
     (snd (cache_set 0 ''k'' (7::nat) ''weather'' JNull all_ok fresh_idb)) = (Inr None, fresh_idb) \<and>
   cleanupExpiredEntries_loop 700000 (map snd stores) 0
     (db (snd (cache_set 0 ''k'' (7::nat) ''weather'' JNull all_ok fresh_idb))) = (1, empty_db) \<and>
   fst (cleanupExpiredEntries 700000 all_ok fresh_idb) = Inr None"
  by (simp add: all_ok_def empty_db_def fresh_idb_def init_def cleanupExpiredEntries_def cleanupStore_def
      stores_def
      cache_set_def new_entry_def ttl_of_def expirationTimes_def getStore_def idb_put_def
      setLocalStorage_def ls_setItem_def JSON_stringify_def get_property_def Object_prototype_def fun_eq_iff)

text \<open>
  C9, as stated, fails: a negative \<open>customTTL\<close> is truthy and is used as it is, so
  \<open>set("k", 7, "weather", -1)\<close> at time 1000 stores an entry with \<open>expires = 999\<close>,
  expired from the moment it is written.
\<close>

theorem negative_customTTL_expires_at_once:
  "db (snd (cache_set 1000 ''k'' (7::nat) ''weather'' (Num (- 1)) all_ok fresh_idb)) ''weather-data'' =
     [(''k'', \<lparr>entry_id = ''k'', data = 7, entry_type = ''weather'', timestamp = 1000,
               expires = At 999\<rparr>)] \<and>
   isExpired (At 999) 1000"
  by (simp add: all_ok_def empty_db_def fresh_idb_def init_def cleanupExpiredEntries_def cleanupStore_def
      stores_def
      cache_set_def new_entry_def ttl_of_def expirationTimes_def getStore_def idb_put_def
      setLocalStorage_def ls_setItem_def JSON_stringify_def get_property_def Object_prototype_def)

text \<open>
  C9, amended. \<open>new_entry\<close> is the entry that \<open>set\<close> builds and stores. A
  \<open>customTTL\<close> of 0 or \<open>null\<close> is ignored: the entry is the one built without it, and
  for a type of the table its time to live is the table's. Any other whole number \<open>n\<close>
  given as \<open>customTTL\<close> is the time to live: \<open>expires\<close> is \<open>now + n\<close> when that is in
  the exact range, and for \<open>n > 0\<close> the entry is not expired at its own timestamp. A
  type that is neither in the table nor the name of a member of \<open>Object.prototype\<close>
  gets the weather default, 600000 ms.
\<close>

theorem set_ttl_fallbacks:
  "(customTTL = Num 0 \<or> customTTL = JNull \<longrightarrow>
      new_entry now key d type customTTL = new_entry now key d type JNull \<and>
      (\<forall>t. map_of expirationTimes type = Some t \<longrightarrow> ttl_of customTTL type = t)) \<and>
   (n \<noteq> 0 \<longrightarrow>
      ttl_of (Num n) type = Num n \<and>
      (\<bar>now + n\<bar> \<le> 2 ^ 53 \<longrightarrow> expires (new_entry now key d type (Num n)) = At (now + n)) \<and>
      (0 < n \<longrightarrow> \<not> isExpired (expires (new_entry now key d type (Num n))) now)) \<and>
   (map_of expirationTimes type = None \<and> type \<notin> set Object_prototype \<longrightarrow>
      ttl_of JNull type = Num (10 * 60 * 1000) \<and> ttl_of JNull type = ttl_of JNull ''weather'')"
proof -
  have a: "customTTL = Num 0 \<or> customTTL = JNull \<longrightarrow>
      new_entry now key d type customTTL = new_entry now key d type JNull \<and>
      (\<forall>t. map_of expirationTimes type = Some t \<longrightarrow> ttl_of customTTL type = t)"
    using ttl_of_falsy [of customTTL type] ttl_of_default [of type]
    by (auto simp: new_entry_def)
  have b: "n \<noteq> 0 \<longrightarrow>
      ttl_of (Num n) type = Num n \<and>
      (\<bar>now + n\<bar> \<le> 2 ^ 53 \<longrightarrow> expires (new_entry now key d type (Num n)) = At (now + n)) \<and>
      (0 < n \<longrightarrow> \<not> isExpired (expires (new_entry now key d type (Num n))) now)"
    by (simp add: ttl_of_given expires_new_entry)
  have c: "map_of expirationTimes type = None \<and> type \<notin> set Object_prototype \<longrightarrow>
      ttl_of JNull type = Num (10 * 60 * 1000) \<and> ttl_of JNull type = ttl_of JNull ''weather''"
    using ttl_of_unknown [of type]
    by (simp add: ttl_of_def get_property_def expirationTimes_def)
  from a b c show ?thesis by blast
qed

theorem set_ttl_fallbacks_witness:
  "new_entry 1000 ''k'' (7::nat) ''forecast'' (Num 0) = new_entry 1000 ''k'' 7 ''forecast'' JNull \<and>
   ttl_of (Num 0) ''forecast'' = Num 1800000 \<and>
   expires (new_entry 1000 ''k'' (7::nat) ''forecast'' (Num 5)) = At 1005 \<and>
   \<not> isExpired (expires (new_entry 1000 ''k'' (7::nat) ''forecast'' (Num 5))) 1000 \<and>
   ttl_of JNull ''pollen'' = Num 600000"
proof -
  have t: "map_of expirationTimes ''forecast'' = Some (Num 1800000)"
    "map_of expirationTimes ''pollen'' = None" "''pollen'' \<notin> set Object_prototype"
    by (simp_all add: expirationTimes_def Object_prototype_def)
  have r: "\<bar>1000 + 5\<bar> \<le> (2::int) ^ 53" "(5::int) \<noteq> 0" "(0::int) < 5" by simp_all
  from t r set_ttl_fallbacks [where customTTL = "Num 0" and now = 1000 and key = "''k''"
      and d = "7::nat" and type = "''forecast''" and n = 5]
  have 1: "new_entry 1000 ''k'' (7::nat) ''forecast'' (Num 0) =
      new_entry 1000 ''k'' 7 ''forecast'' JNull \<and>
    ttl_of (Num 0) ''forecast'' = Num 1800000 \<and>
    expires (new_entry 1000 ''k'' (7::nat) ''forecast'' (Num 5)) = At (1000 + 5) \<and>
    \<not> isExpired (expires (new_entry 1000 ''k'' (7::nat) ''forecast'' (Num 5))) 1000"
    by blast
  from t set_ttl_fallbacks [where customTTL = JNull and now = 1000 and key = "''k''"
      and d = "7::nat" and type = "''pollen''" and n = 5]
  have 2: "ttl_of JNull ''pollen'' = Num (10 * 60 * 1000)"
    by blast
  from 1 2 show ?thesis by simp
qed

section \<open>Properties of the request caches\<close>

text \<open>
  C2, amended. The stale-allowed read is \<open>getCachedData(key, true)\<close> of WeatherService:
  at any time \<open>now\<close> it returns the payload last written under the key, however old;
  and \<open>getCurrentWeather\<close> whose request fails returns that payload.
\<close>

theorem stale_read_of_request_cache:
  "getCachedData now (setCachedData t key d cache) key True = Some d \<and>
   returned (getCurrentWeather now later (Inl error) lat lon units lang
     (setCachedData t (''current_'' @ lat @ ''_'' @ lon @ ''_'' @ units @ ''_'' @ lang) d cache)) =
     Inr d"
  by (simp add: getCachedData_def setCachedData_def getCurrentWeather_def Let_def)

text \<open>
  C8. If the request cache holds, under the key of the call, an entry of age less than
  \<open>cacheTimeout\<close>, \<open>getCurrentWeather\<close> returns its payload, starts no request and
  leaves the cache as it is. The same for \<open>searchLocations\<close> of OpenMeteoService with
  a query of two characters or more: it returns the cached results and its effects
  are the two cache look-ups, with no fetch.
\<close>

theorem fresh_hit_skips_request:
  assumes "cache (''current_'' @ lat @ ''_'' @ lon @ ''_'' @ units @ ''_'' @ lang) = Some cached"
    and "now - item_timestamp cached < cacheTimeout"
    and "2 \<le> length q"
    and "requestCache (''search_'' @ toLowerCase q) = Some results"
    and "now - item_timestamp results < cacheTimeout"
  shows "getCurrentWeather now later net lat lon units lang cache =
       \<lparr>returned = Inr (item_data cached), cache_after = cache, requests = 0\<rparr> \<and>
     found (searchLocations now later net' (Some q) requestCache) = Inr (item_data results) \<and>
     requestCache_after (searchLocations now later net' (Some q) requestCache) = requestCache \<and>
     trace (searchLocations now later net' (Some q) requestCache) =
       [CacheHas (''search_'' @ toLowerCase q), CacheGet (''search_'' @ toLowerCase q)]"
proof -
  from assms(3) have "\<not> query_rejected (Some q)"
    by (auto simp: query_rejected_def)
  with assms show ?thesis
    by (simp add: getCurrentWeather_def getCachedData_def searchLocations_def Let_def)
qed

theorem fresh_hit_skips_request_witness:
  "getCurrentWeather 300999 301000 (Inl (''TypeError'', ''Failed to fetch''))
     ''10'' ''20'' ''metric'' ''en'' hit_cache =
     \<lparr>returned = Inr 7, cache_after = hit_cache, requests = 0\<rparr> \<and>
   found (searchLocations 300999 301000 offline (Some ''London'') search_cache) = Inr [1, 2] \<and>
   trace (searchLocations 300999 301000 offline (Some ''London'') search_cache) =
     [CacheHas ''search_london'', CacheGet ''search_london'']"
  using fresh_hit_skips_request [where cache = hit_cache and lat = "''10''" and lon = "''20''"
      and units = "''metric''" and lang = "''en''"
      and cached = "\<lparr>item_data = 7, item_timestamp = 1000\<rparr>" and now = 300999
      and later = 301000 and net = "Inl (''TypeError'', ''Failed to fetch'')"
      and q = "''London''" and requestCache = search_cache
      and results = "\<lparr>item_data = [1, 2], item_timestamp = 1000\<rparr>" and net' = offline]
  by (simp add: hit_cache_def search_cache_def setCachedData_def cacheTimeout_def toLowerCase_def)

text \<open>
  C10. When the query is absent or shorter than two characters, both
  \<open>searchLocations\<close> methods return the empty array, with no effect at all: no look-up
  in the request cache, no write to it, no fetch, and the cache unchanged.
\<close>

theorem short_query_returns_empty:
  assumes "query = None \<or> (\<exists>q. query = Some q \<and> length q < 2)"
  shows "searchLocations now later net query requestCache =
       \<lparr>found = Inr [], requestCache_after = requestCache, trace = []\<rparr> \<and>
     geocoding_searchLocations now later net query requestCache =
       \<lparr>found = Inr [], requestCache_after = requestCache, trace = []\<rparr>"
proof -
  from assms have "query_rejected query"
    by (auto simp: query_rejected_def)
  then show ?thesis
    by (simp add: searchLocations_def geocoding_searchLocations_def)
qed


theorem short_query_returns_empty_witness:
  "searchLocations 300999 301000 offline (Some ''L'') search_cache =
     \<lparr>found = Inr [], requestCache_after = search_cache, trace = []\<rparr> \<and>
   geocoding_searchLocations 300999 301000 offline None search_cache =
     \<lparr>found = Inr [], requestCache_after = search_cache, trace = []\<rparr>"
  using short_query_returns_empty [where query = "Some ''L''" and now = 300999 and later = 301000
      and net = offline and requestCache = search_cache]
    short_query_returns_empty [where query = None and now = 300999 and later = 301000
      and net = offline and requestCache = search_cache]
  by simp

end
